theory Spec2Isabelle
  imports Complex_Main "HOL-Library.AList"
begin

section \<open>Values of the Python runtime\<close>

text \<open>
  Metric values are Python floats. A finite float is carried as the real number it
  denotes; the three special values are constructors of their own, because the
  trainer's decisions depend on them (\<open>float('nan')\<close>, \<open>np.inf\<close>).
\<close>

datatype pyfloat = Fin real | PInf | NInf | NaN

datatype error = AssertionError | ZeroDivisionError | IndexError | KeyError | ConfigurationError

text \<open>\<open>np.isfinite\<close>.\<close>

fun isfinite :: "pyfloat \<Rightarrow> bool" where
  "isfinite (Fin _) = True"
| "isfinite PInf = False"
| "isfinite NInf = False"
| "isfinite NaN = False"

text \<open>Python's \<open>a < b\<close> and \<open>a <= b\<close> on floats: every comparison with NaN is false.\<close>

fun float_lt :: "pyfloat \<Rightarrow> pyfloat \<Rightarrow> bool" where
  "float_lt (Fin a) (Fin b) = (a < b)"
| "float_lt (Fin _) PInf = True"
| "float_lt NInf (Fin _) = True"
| "float_lt NInf PInf = True"
| "float_lt _ _ = False"

fun float_le :: "pyfloat \<Rightarrow> pyfloat \<Rightarrow> bool" where
  "float_le (Fin a) (Fin b) = (a \<le> b)"
| "float_le (Fin _) PInf = True"
| "float_le NInf (Fin _) = True"
| "float_le NInf PInf = True"
| "float_le PInf PInf = True"
| "float_le NInf NInf = True"
| "float_le _ _ = False"

text \<open>
  \<open>x > n\<close> for a float \<open>x\<close> and a Python int \<open>n\<close>: Python compares the two
  exactly, without rounding the int.
\<close>

fun float_gt_int :: "pyfloat \<Rightarrow> int \<Rightarrow> bool" where
  "float_gt_int (Fin a) n = (a > real_of_int n)"
| "float_gt_int PInf n = True"
| "float_gt_int NInf n = False"
| "float_gt_int NaN n = False"

text \<open>\<open>abs\<close> on floats.\<close>

fun float_abs :: "pyfloat \<Rightarrow> pyfloat" where
  "float_abs (Fin a) = Fin \<bar>a\<bar>"
| "float_abs PInf = PInf"
| "float_abs NInf = PInf"
| "float_abs NaN = NaN"

text \<open>
  \<open>a - b\<close> on floats. The difference of two finite floats is rounded (and may
  overflow); the rounding is the parameter \<open>rnd\<close>, so that nothing proved below
  depends on how it rounds.
\<close>

fun float_sub :: "(real \<Rightarrow> pyfloat) \<Rightarrow> pyfloat \<Rightarrow> pyfloat \<Rightarrow> pyfloat" where
  "float_sub rnd (Fin a) (Fin b) = rnd (a - b)"
| "float_sub rnd NaN _ = NaN"
| "float_sub rnd _ NaN = NaN"
| "float_sub rnd PInf PInf = NaN"
| "float_sub rnd NInf NInf = NaN"
| "float_sub rnd PInf _ = PInf"
| "float_sub rnd NInf _ = NInf"
| "float_sub rnd (Fin _) PInf = NInf"
| "float_sub rnd (Fin _) NInf = PInf"

section \<open>What training.py imports\<close>

text \<open>
  The modules \<open>constants\<close>, \<open>utils\<close> and \<open>horovod_mpi\<close> are not part of the
  sources at hand. What training.py reads from them is a parameter of the model:
  the constants of \<open>C\<close>, the comparison \<open>utils.metric_value_is_better\<close>, and the
  Horovod setting of the worker. \<open>bcast_bool\<close> and \<open>bcast_float\<close> are what
  \<open>MPI.COMM_WORLD.bcast(x, root=0)\<close> hands to a worker that is not the root, as a
  function of the worker's own \<open>x\<close> (which MPI ignores there), during one call of
  \<open>_determine_improvement\<close> or \<open>_determine_convergence\<close>. A call of
  \<open>_determine_improvement\<close> broadcasts once for every validation metric that bears
  the early-stopping name, and rank 0 decides anew each time: \<open>bcast_bool i\<close> is what
  the broadcast number \<open>i\<close> of the call hands over, counting from 0.
\<close>

record externals =
  PERPLEXITY :: string
  METRIC_WORST :: "string \<Rightarrow> pyfloat option"
  METRICS_REQUIRING_DECODER :: "string list"
  MEASURE_SPEED_EVERY :: int
  metric_value_is_better :: "pyfloat \<Rightarrow> pyfloat \<Rightarrow> string \<Rightarrow> bool"
  using_horovod :: bool
  hvd_rank :: int
  bcast_bool :: "nat \<Rightarrow> bool \<Rightarrow> bool"
  bcast_float :: "pyfloat \<Rightarrow> pyfloat"
  float_round :: "real \<Rightarrow> pyfloat"

text \<open>\<open>horovod_mpi.MPI.COMM_WORLD.bcast(x, root=0)\<close>: the root keeps its own value.\<close>

definition comm_bcast_bool :: "externals \<Rightarrow> nat \<Rightarrow> bool \<Rightarrow> bool" where
  "comm_bcast_bool D i x = (if hvd_rank D = 0 then x else bcast_bool D i x)"

definition comm_bcast_float :: "externals \<Rightarrow> pyfloat \<Rightarrow> pyfloat" where
  "comm_bcast_float D x = (if hvd_rank D = 0 then x else bcast_float D x)"

text \<open>
  Rank 0 decides anew at every checkpoint, so what a worker that is not the root
  receives differs from checkpoint to checkpoint: \<open>B k\<close> is what the broadcasts of
  checkpoint \<open>k\<close> hand to it, and \<open>at_checkpoint D B k\<close> is what the worker imports
  while it takes the decisions of checkpoint \<open>k\<close>.
\<close>

record broadcast =
  root_bool :: "nat \<Rightarrow> bool \<Rightarrow> bool"
  root_float :: "pyfloat \<Rightarrow> pyfloat"

definition at_checkpoint :: "externals \<Rightarrow> (int \<Rightarrow> broadcast) \<Rightarrow> int \<Rightarrow> externals" where
  "at_checkpoint D B k = D\<lparr> bcast_bool := root_bool (B k), bcast_float := root_float (B k) \<rparr>"

text \<open>
  Modelled from the spec: \<open>utils.metric_value_is_better\<close> is not in the sources. The
  spec compares the new value with the best one in the metric's improvement
  direction, a fixed property of the metric name (\<open>maximize\<close> below); an
  improvement is a strictly better value.
\<close>

definition spec_metric_value_is_better ::
  "(string \<Rightarrow> bool) \<Rightarrow> pyfloat \<Rightarrow> pyfloat \<Rightarrow> string \<Rightarrow> bool" where
  "spec_metric_value_is_better maximize new old metric =
     (if maximize metric then float_lt old new else float_lt new old)"

text \<open>
  Modelled from the spec: \<open>loss.LossMetric\<close> is not in the sources. The trainer reads
  two things of a validation metric: its \<open>name\<close> and the running mean \<open>get()\<close>.
\<close>

record LossMetric =
  name :: string
  get :: pyfloat

section \<open>TrainerConfig and TrainState\<close>

record TrainerConfig =
  output_dir :: string
  early_stopping_metric :: string
  max_params_files_to_keep :: int
  keep_initializations :: bool
  checkpoint_interval :: int
  max_num_checkpoint_not_improved :: "int option"
  checkpoint_improvement_threshold :: pyfloat
  max_checkpoints :: "int option"
  min_samples :: "int option"
  max_samples :: "int option"
  min_updates :: "int option"
  max_updates :: "int option"
  min_epochs :: "int option"
  max_epochs :: "int option"
  max_seconds :: "int option"
  update_interval :: int
  stop_training_on_decoder_failure :: bool

text \<open>
  One record of the metrics file is a dict from names to values of mixed type.
\<close>

datatype pyval = PyInt int | PyFloat pyfloat | PyBool bool | PyNone

text \<open>
  The slots of \<open>TrainState\<close>. \<open>_tic_last_time_elapsed\<close> and \<open>_time_elapsed\<close> lose
  their leading underscore; \<open>early_stopping_metric\<close> is \<open>stopping_metric\<close> here
  (the configuration has a field of that name). Wall-clock readings are reals.
\<close>

record TrainState =
  num_not_improved :: int
  epoch :: int
  checkpoint :: int
  best_checkpoint :: int
  batches :: int
  updates :: int
  samples :: int
  gradient_norm :: "pyfloat option"
  gradients :: "(string \<times> pyfloat list) list"
  metrics :: "(string \<times> pyval) list list"
  start_tic :: real
  tic_last_time_elapsed :: real
  time_elapsed :: real
  stopping_metric :: string
  best_metric :: pyfloat
  best_metric_history :: "pyfloat list"
  converged :: bool
  diverged :: bool

text \<open>
  \<open>TrainState.__init__\<close> at wall-clock time \<open>now\<close>. \<open>C.METRIC_WORST[name]\<close> raises
  KeyError for a name the table does not have.
\<close>

definition TrainState_init :: "externals \<Rightarrow> real \<Rightarrow> string \<Rightarrow> error + TrainState" where
  "TrainState_init D now metric =
     (case METRIC_WORST D metric of
        None \<Rightarrow> Inl KeyError
      | Some worst \<Rightarrow> Inr \<lparr>
          num_not_improved = 0, epoch = 0, checkpoint = 0, best_checkpoint = 0,
          batches = 0, updates = 0, samples = 0, gradient_norm = None, gradients = [],
          metrics = [], start_tic = now, tic_last_time_elapsed = now, time_elapsed = 0,
          stopping_metric = metric, best_metric = worst, best_metric_history = [worst],
          converged = False, diverged = False \<rparr>)"

definition update_time_elapsed :: "real \<Rightarrow> TrainState \<Rightarrow> TrainState" where
  "update_time_elapsed current_time s =
     s\<lparr> time_elapsed := time_elapsed s + (current_time - tic_last_time_elapsed s),
        tic_last_time_elapsed := current_time \<rparr>"

text \<open>
  \<open>TrainState.save\<close> at time \<open>now\<close>: the state is updated in place and then pickled.
  The result is the state left in memory and the pickled blob; pickling keeps every
  slot as it is. \<open>TrainState.load\<close> at time \<open>now\<close> unpickles and resets the anchor
  of the elapsed-time accounting.
\<close>

definition TrainState_save :: "real \<Rightarrow> TrainState \<Rightarrow> TrainState \<times> TrainState" where
  "TrainState_save now s = (let s' = update_time_elapsed now s in (s', s'))"

definition TrainState_load :: "real \<Rightarrow> TrainState \<Rightarrow> TrainState" where
  "TrainState_load now blob = blob\<lparr> tic_last_time_elapsed := now \<rparr>"

section \<open>The decisions taken at a checkpoint\<close>

text \<open>
  The loop of \<open>_determine_improvement\<close> over the validation metrics. The accumulator
  is \<open>(value, value_is_better, state)\<close>; every metric that bears the early-stopping
  name is compared, on the worker that makes the authoritative check, with the best
  value so far, and the decision goes through the broadcast under Horovod; \<open>i\<close>
  is the number of metrics of that name met so far in the call.
\<close>

fun improvement_loop ::
  "externals \<Rightarrow> TrainerConfig \<Rightarrow> nat \<Rightarrow> LossMetric list \<Rightarrow> pyfloat option \<times> bool \<times> TrainState
     \<Rightarrow> pyfloat option \<times> bool \<times> TrainState" where
  "improvement_loop D cfg i [] acc = acc"
| "improvement_loop D cfg i (val_metric # rest) (val, value_is_better, s) =
     (if name val_metric = early_stopping_metric cfg then
        (let v = get val_metric;
             b1 = (if \<not> using_horovod D \<or> hvd_rank D = 0
                   then metric_value_is_better D v (best_metric s) (early_stopping_metric cfg)
                   else value_is_better);
             b2 = (if using_horovod D then comm_bcast_bool D i b1 else b1);
             s' = (if b2
                   then s\<lparr> best_metric := v, best_checkpoint := checkpoint s,
                           num_not_improved := 0 \<rparr>
                   else s)
         in improvement_loop D cfg (Suc i) rest (Some v, b2, s'))
      else improvement_loop D cfg i rest (val, value_is_better, s))"

text \<open>
  \<open>_determine_improvement\<close>: the assertion, the counter of checkpoints without
  improvement, and the window of best values (a deque: append on the right, popleft).
\<close>

definition determine_improvement ::
  "externals \<Rightarrow> TrainerConfig \<Rightarrow> LossMetric list \<Rightarrow> TrainState \<Rightarrow> error + (bool \<times> TrainState)" where
  "determine_improvement D cfg val_metrics s =
     (case improvement_loop D cfg 0 val_metrics (None, False, s) of
        (val, value_is_better, s1) \<Rightarrow>
          if val = None then Inl AssertionError
          else
            (let s2 = (if \<not> value_is_better
                       then s1\<lparr> num_not_improved := num_not_improved s1 + 1 \<rparr> else s1);
                 s3 = s2\<lparr> best_metric_history := best_metric_history s2 @ [best_metric s2] \<rparr>;
                 s4 = (case max_num_checkpoint_not_improved cfg of
                         None \<Rightarrow> s3
                       | Some m \<Rightarrow>
                           if int (length (best_metric_history s3)) > m + 1
                           then s3\<lparr> best_metric_history := tl (best_metric_history s3) \<rparr>
                           else s3)
             in Inr (value_is_better, s4)))"

text \<open>
  \<open>_determine_convergence\<close>. \<open>best_metric_history[0]\<close> raises IndexError on an empty
  deque; only the worker that computes the improvement over the window reads it.
\<close>

definition unmet :: "int option \<Rightarrow> int \<Rightarrow> bool" where
  "unmet minimum reached = (case minimum of None \<Rightarrow> False | Some m \<Rightarrow> reached < m)"

definition determine_convergence :: "externals \<Rightarrow> TrainerConfig \<Rightarrow> TrainState \<Rightarrow> error + bool" where
  "determine_convergence D cfg s =
     (if unmet (min_samples cfg) (samples s) then Inr False
      else if unmet (min_updates cfg) (updates s) then Inr False
      else if unmet (min_epochs cfg) (epoch s) then Inr False
      else if (case max_num_checkpoint_not_improved cfg of
                 None \<Rightarrow> False
               | Some m \<Rightarrow> 0 \<le> m \<and> checkpoint s \<ge> m)
      then
        (case (if \<not> using_horovod D \<or> hvd_rank D = 0
               then (case best_metric_history s of
                       [] \<Rightarrow> Inl IndexError
                     | h # _ \<Rightarrow> Inr (float_abs (float_sub (float_round D) (best_metric s) h)))
               else Inr (Fin 0)) of
           Inl e \<Rightarrow> Inl e
         | Inr w \<Rightarrow>
             (let window_improvement = (if using_horovod D then comm_bcast_float D w else w)
              in Inr (float_le window_improvement (checkpoint_improvement_threshold cfg))))
      else Inr False)"

text \<open>
  \<open>_determine_divergence\<close>: the perplexity of the first metric that bears the name
  \<open>C.PERPLEXITY\<close>, NaN when there is none; \<open>vocab_target_size\<close> comes from the model's
  configuration.
\<close>

fun last_perplexity :: "string \<Rightarrow> LossMetric list \<Rightarrow> pyfloat \<Rightarrow> pyfloat" where
  "last_perplexity p [] last_ppl = last_ppl"
| "last_perplexity p (metric # rest) last_ppl =
     (if name metric = p then get metric else last_perplexity p rest last_ppl)"

definition determine_divergence :: "externals \<Rightarrow> int \<Rightarrow> LossMetric list \<Rightarrow> bool" where
  "determine_divergence D vocab_target_size val_metrics =
     (let last_ppl = last_perplexity (PERPLEXITY D) val_metrics NaN
      in \<not> isfinite last_ppl \<or> float_gt_int last_ppl (2 * vocab_target_size))"

section \<open>Speedometer\<close>

text \<open>
  The fields of \<open>Speedometer\<close> that decide whether a call returns: \<open>tic\<close> and the
  rates are wall-clock quantities that only reach the log, and the trainer builds
  its speedometer with \<open>auto_reset=False\<close>, so that the metrics are only logged.
\<close>

record Speedometer =
  frequency :: int
  initialised :: bool
  last_count :: int
  speed_samples :: int
  speed_tokens :: int

definition Speedometer_init :: "int \<Rightarrow> Speedometer" where
  "Speedometer_init freq =
     \<lparr> frequency = freq, initialised = False, last_count = 0, speed_samples = 0,
       speed_tokens = 0 \<rparr>"

text \<open>
  \<open>Speedometer.__call__\<close>. The counts are added before anything can fail. Once
  initialised, \<open>count % self.frequency\<close> divides by the frequency,
  \<open>batches / updates\<close> by the number of updates, and
  \<open>self.frequency / update_interval\<close> by their quotient, which is zero when
  \<open>batches\<close> is. The elapsed time \<open>toc\<close> is taken to be positive.
\<close>

definition Speedometer_call ::
  "Speedometer \<Rightarrow> int \<Rightarrow> int \<Rightarrow> int \<Rightarrow> int \<Rightarrow> int \<Rightarrow> Speedometer \<times> error option" where
  "Speedometer_call sp epoch_no batches_no updates_no samples_no tokens_no =
     (let count = batches_no;
          sp1 = (if last_count sp > count then sp\<lparr> initialised := False \<rparr> else sp);
          sp2 = sp1\<lparr> last_count := count,
                     speed_samples := speed_samples sp1 + samples_no,
                     speed_tokens := speed_tokens sp1 + tokens_no \<rparr>
      in if initialised sp2 then
           (if frequency sp2 = 0 then (sp2, Some ZeroDivisionError)
            else if count mod frequency sp2 = 0 then
              (if updates_no = 0 \<or> batches_no = 0 then (sp2, Some ZeroDivisionError)
               else (sp2\<lparr> speed_samples := 0, speed_tokens := 0 \<rparr>, None))
            else (sp2, None))
         else (sp2\<lparr> initialised := True \<rparr>, None))"

section \<open>The trainer and its collaborators\<close>

record Batch =
  batch_samples :: int
  batch_tokens :: int

text \<open>
  The model, the Gluon trainer, the data iterators, the loss functions with their
  running metrics, the random generators and the files under the output directory
  are collaborators of the training loop. Their joint state is a value of an
  arbitrary type \<open>'w\<close>. A call that only changes that state is an \<open>effect\<close>, named
  after the call in the source; the calls whose results the loop reads are
  functions of their own. Collaborator calls are taken to return.
\<close>

datatype effect =
    ForwardBackward Batch
  | TrainerStep Batch
  | ZeroGrad
  | UpdateLossMetrics
  | IterReset
  | SaveParams int int
  | AdjustLearningRate bool
  | UpdateBestParams int
  | SaveTrainingState int
  | LoadTrainingState
  | WriteMetricsFile "(string \<times> pyval) list list"
  | ResetLossMetrics
  | SaveConfig
  | Cleanup int int

record 'w collaborators =
  effect :: "effect \<Rightarrow> 'w \<Rightarrow> 'w"
  next_batch :: "'w \<Rightarrow> Batch \<times> 'w"
  iter_next :: "'w \<Rightarrow> bool"
  evaluate_losses :: "'w \<Rightarrow> LossMetric list \<times> 'w"
  decode_and_evaluate :: "int \<Rightarrow> 'w \<Rightarrow> (string \<times> pyfloat) list \<times> 'w"
  train_metrics :: "'w \<Rightarrow> LossMetric list"
  learning_rate :: "'w \<Rightarrow> pyfloat"
  used_gpu_memory :: "'w \<Rightarrow> int"

text \<open>
  The trainer object: its configuration (which \<open>fit\<close> may change), the target
  vocabulary size of the model, the ledger \<open>self.state\<close>, the speedometer, the
  collaborators' state, and the pickled ledger in the training-state directory
  (\<open>None\<close> when that directory does not exist).
\<close>

record 'w trainer =
  config :: TrainerConfig
  vocab_target_size :: int
  state :: TrainState
  speedometer :: Speedometer
  world :: 'w
  training_state :: "TrainState option"

text \<open>
  \<open>_step\<close>. The result is the trainer as the call leaves it and the exception it
  raised, if any: the ledger is updated in place, so an exception of the
  speedometer leaves the counters advanced. With \<open>update_interval = 0\<close> the test
  \<open>batches % update_interval\<close> raises.
\<close>

definition step :: "'w collaborators \<Rightarrow> Batch \<Rightarrow> 'w trainer \<Rightarrow> 'w trainer \<times> error option" where
  "step E batch T =
     (let cfg = config T;
          s1 = (state T)\<lparr> batches := batches (state T) + 1 \<rparr>;
          w1 = effect E (ForwardBackward batch) (world T)
      in if update_interval cfg = 0 then (T\<lparr> state := s1, world := w1 \<rparr>, Some ZeroDivisionError)
         else
           (let do_update = (update_interval cfg = 1 \<or> batches s1 mod update_interval cfg = 0);
                w2 = (if do_update
                      then (let w = effect E (TrainerStep batch) w1
                            in if update_interval cfg > 1 then effect E ZeroGrad w else w)
                      else w1);
                s2 = (if do_update then s1\<lparr> updates := updates s1 + 1 \<rparr> else s1);
                s3 = s2\<lparr> samples := samples s2 + batch_samples batch \<rparr>;
                w3 = effect E UpdateLossMetrics w2;
                r = Speedometer_call (speedometer T) (epoch s3) (batches s3) (updates s3)
                      (batch_samples batch) (batch_tokens batch)
            in (T\<lparr> state := s3, world := w3, speedometer := fst r \<rparr>, snd r)))"

text \<open>Calls of \<open>_step\<close> on the batches of a list, up to the first that raises.\<close>

fun steps :: "'w collaborators \<Rightarrow> Batch list \<Rightarrow> 'w trainer \<Rightarrow> 'w trainer \<times> error option" where
  "steps E [] T = (T, None)"
| "steps E (batch # rest) T =
     (case step E batch T of
        (T1, Some e) \<Rightarrow> (T1, Some e)
      | (T1, None) \<Rightarrow> steps E rest T1)"

text \<open>
  The end of \<open>_evaluate\<close>: the scores of the checkpoint decoder are appended to the
  validation metrics. \<open>metric_name not in val_metrics\<close> looks a string up in a list
  of \<open>LossMetric\<close> objects; Python's \<open>in\<close> compares by \<open>==\<close>, and a string and a
  metric object are never equal.
\<close>

datatype pyobject = PyStr string | PyLossMetric LossMetric

definition py_in :: "pyobject \<Rightarrow> pyobject list \<Rightarrow> bool" where
  "py_in x xs = (x \<in> set xs)"

fun merge_decoder_metrics ::
  "(string \<times> pyfloat) list \<Rightarrow> LossMetric list \<Rightarrow> error + LossMetric list" where
  "merge_decoder_metrics [] val_metrics = Inr val_metrics"
| "merge_decoder_metrics ((metric_name, metric_value) # rest) val_metrics =
     (if py_in (PyStr metric_name) (map PyLossMetric val_metrics) then Inl AssertionError
      else merge_decoder_metrics rest
             (val_metrics @ [\<lparr> name = metric_name, get = metric_value \<rparr>]))"

text \<open>
  \<open>_evaluate\<close>: the loss pass over the validation data (with the per-cluster metrics
  of a bandit iterator) is the collaborators' \<open>evaluate_losses\<close>; \<open>decoder\<close> says
  whether a checkpoint decoder was given.
\<close>

definition evaluate ::
  "'w collaborators \<Rightarrow> bool \<Rightarrow> int \<Rightarrow> 'w \<Rightarrow> error + (LossMetric list \<times> 'w)" where
  "evaluate E decoder checkpoint_no w =
     (case evaluate_losses E w of
        (val_metrics, w1) \<Rightarrow>
          if decoder then
            (case decode_and_evaluate E checkpoint_no w1 of
               (decoder_metrics, w2) \<Rightarrow>
                 (case merge_decoder_metrics decoder_metrics val_metrics of
                    Inl e \<Rightarrow> Inl e
                  | Inr merged \<Rightarrow> Inr (merged, w2)))
          else Inr (val_metrics, w1))"

text \<open>The record that \<open>_write_metrics_file\<close> appends to \<open>state.metrics\<close>.\<close>

definition metrics_data ::
  "'w collaborators \<Rightarrow> TrainState \<Rightarrow> 'w \<Rightarrow> LossMetric list \<Rightarrow> (string \<times> pyval) list" where
  "metrics_data E s w val_metrics =
     (let data = [(''epoch'', PyInt (epoch s)),
                  (''learning-rate'', PyFloat (learning_rate E w)),
                  (''gradient-norm'',
                     (case gradient_norm s of None \<Rightarrow> PyNone | Some g \<Rightarrow> PyFloat g)),
                  (''time-elapsed'', PyFloat (Fin (time_elapsed s))),
                  (''used-gpu-memory'', PyInt (used_gpu_memory E w)),
                  (''converged'', PyBool (converged s)),
                  (''diverged'', PyBool (diverged s))];
          data1 = fold (\<lambda>metric. AList.update (name metric @ ''-train'') (PyFloat (get metric)))
                    (train_metrics E w) data
      in fold (\<lambda>metric. AList.update (name metric @ ''-val'') (PyFloat (get metric)))
           val_metrics data1)"

datatype status =
    Running
  | MaxEpochsReached
  | MaxUpdatesReached
  | MaxSamplesReached
  | MaxSecondsReached
  | ConvergedOrDiverged

text \<open>
  The checkpoint branch of \<open>fit\<close>, piece by piece. First
  \<open>self.state.checkpoint += 1\<close> and \<open>_save_params\<close>.
\<close>

definition advance_checkpoint :: "'w collaborators \<Rightarrow> 'w trainer \<Rightarrow> 'w trainer" where
  "advance_checkpoint E T =
     T\<lparr> state := (state T)\<lparr> checkpoint := checkpoint (state T) + 1 \<rparr>,
        world := effect E (SaveParams (checkpoint (state T) + 1) (best_checkpoint (state T)))
                   (world T) \<rparr>"

text \<open>
  \<open>has_improved = self._determine_improvement(val_metrics)\<close>, then
  \<open>self.state.converged\<close> and \<open>self.state.diverged\<close>.
\<close>

definition checkpoint_decisions ::
  "externals \<Rightarrow> LossMetric list \<Rightarrow> 'w trainer \<Rightarrow> error + (bool \<times> 'w trainer)" where
  "checkpoint_decisions D val_metrics T =
     (case determine_improvement D (config T) val_metrics (state T) of
        Inl e \<Rightarrow> Inl e
      | Inr (has_improved, s2) \<Rightarrow>
          (case determine_convergence D (config T) s2 of
             Inl e \<Rightarrow> Inl e
           | Inr conv \<Rightarrow>
               Inr (has_improved,
                    T\<lparr> state := s2\<lparr> converged := conv,
                                    diverged := determine_divergence D (vocab_target_size T)
                                                  val_metrics \<rparr> \<rparr>)))"

text \<open>
  \<open>_adjust_learning_rate(has_improved)\<close> and, after an improvement,
  \<open>_update_best_params\<close> with \<open>_save_trainer_states\<close>: collaborators only.
\<close>

definition adjust_and_keep_best :: "'w collaborators \<Rightarrow> bool \<Rightarrow> 'w trainer \<Rightarrow> 'w trainer" where
  "adjust_and_keep_best E has_improved T =
     T\<lparr> world := (if has_improved
                   then effect E (UpdateBestParams (best_checkpoint (state T)))
                          (effect E (AdjustLearningRate has_improved) (world T))
                   else effect E (AdjustLearningRate has_improved) (world T)) \<rparr>"

text \<open>
  \<open>_save_training_state\<close> at time \<open>now\<close>: the collaborators write their part of the
  snapshot, \<open>self.state.save\<close> writes the ledger, and the directory replaces the
  previous one.
\<close>

definition save_training_state :: "'w collaborators \<Rightarrow> real \<Rightarrow> 'w trainer \<Rightarrow> 'w trainer" where
  "save_training_state E now T =
     T\<lparr> world := effect E (SaveTrainingState (checkpoint (state T))) (world T),
        state := fst (TrainState_save now (state T)),
        training_state := Some (snd (TrainState_save now (state T))) \<rparr>"

text \<open>\<open>_write_metrics_file\<close>, then the reset of the loss metrics.\<close>

definition write_metrics_file ::
  "'w collaborators \<Rightarrow> LossMetric list \<Rightarrow> 'w trainer \<Rightarrow> 'w trainer" where
  "write_metrics_file E val_metrics T =
     T\<lparr> state := (state T)\<lparr> metrics := metrics (state T)
                                          @ [metrics_data E (state T) (world T) val_metrics] \<rparr>,
        world := effect E ResetLossMetrics
                   (effect E (WriteMetricsFile
                                (metrics (state T)
                                   @ [metrics_data E (state T) (world T) val_metrics]))
                      (world T)) \<rparr>"

text \<open>
  The two tests that end the checkpoint branch: the wall-clock budget, then
  convergence or divergence. \<open>Running\<close> when neither breaks.
\<close>

definition checkpoint_status :: "'w trainer \<Rightarrow> status" where
  "checkpoint_status T =
     (if (case max_seconds (config T) of
            None \<Rightarrow> False
          | Some m \<Rightarrow> time_elapsed (state T) \<ge> real_of_int m)
      then MaxSecondsReached
      else if converged (state T) \<or> diverged (state T) then ConvergedOrDiverged
      else Running)"

text \<open>
  The whole branch. \<open>clock k\<close> is the wall-clock time at which the ledger of
  checkpoint \<open>k\<close> is saved, and \<open>B k\<close> is what rank 0 broadcasts at checkpoint \<open>k\<close>.
\<close>

definition persist ::
  "'w collaborators \<Rightarrow> (int \<Rightarrow> real) \<Rightarrow> bool \<Rightarrow> LossMetric list \<Rightarrow> 'w trainer \<Rightarrow> 'w trainer" where
  "persist E clock has_improved val_metrics T =
     write_metrics_file E val_metrics
       (save_training_state E (clock (checkpoint (state T)))
          (adjust_and_keep_best E has_improved T))"

definition checkpoint_block ::
  "externals \<Rightarrow> (int \<Rightarrow> broadcast) \<Rightarrow> 'w collaborators \<Rightarrow> bool \<Rightarrow> (int \<Rightarrow> real) \<Rightarrow> 'w trainer
     \<Rightarrow> error + (status \<times> 'w trainer)" where
  "checkpoint_block D B E decoder clock T =
     (case evaluate E decoder (checkpoint (state (advance_checkpoint E T)))
             (world (advance_checkpoint E T)) of
        Inl e \<Rightarrow> Inl e
      | Inr (val_metrics, w) \<Rightarrow>
          (case checkpoint_decisions
                  (at_checkpoint D B (checkpoint (state (advance_checkpoint E T))))
                  val_metrics ((advance_checkpoint E T)\<lparr> world := w \<rparr>) of
             Inl e \<Rightarrow> Inl e
           | Inr (has_improved, T1) \<Rightarrow>
               Inr (checkpoint_status (persist E clock has_improved val_metrics T1),
                    persist E clock has_improved val_metrics T1)))"

text \<open>
  After the step: \<open>if not train_iter.iter_next(): self.state.epoch += 1;
  train_iter.reset()\<close>.
\<close>

definition end_of_epoch :: "'w collaborators \<Rightarrow> 'w trainer \<Rightarrow> 'w trainer" where
  "end_of_epoch E T =
     (if \<not> iter_next E (world T)
      then T\<lparr> state := (state T)\<lparr> epoch := epoch (state T) + 1 \<rparr>,
              world := effect E IterReset (world T) \<rparr>
      else T)"

text \<open>
  The three tests at the head of the loop of \<open>fit\<close>, in their order: the budget
  that ends the loop, if any.
\<close>

definition budget_exhausted :: "'w trainer \<Rightarrow> status option" where
  "budget_exhausted T =
     (if (case max_epochs (config T) of None \<Rightarrow> False | Some m \<Rightarrow> epoch (state T) = m)
      then Some MaxEpochsReached
      else if (case max_updates (config T) of None \<Rightarrow> False | Some m \<Rightarrow> updates (state T) = m)
      then Some MaxUpdatesReached
      else if (case max_samples (config T) of None \<Rightarrow> False | Some m \<Rightarrow> samples (state T) \<ge> m)
      then Some MaxSamplesReached
      else None)"

text \<open>
  The \<open>while True\<close> loop of \<open>fit\<close>, for at most \<open>fuel\<close> iterations: with the fuel used
  up the result is the trainer as it stands, with status \<open>Running\<close>. An exception
  ends the loop with \<open>Inl\<close>. \<open>batches % (checkpoint_interval * update_interval)\<close> is
  evaluated only when there was an update, and raises when the product is zero.
\<close>

fun fit_loop ::
  "nat \<Rightarrow> externals \<Rightarrow> (int \<Rightarrow> broadcast) \<Rightarrow> 'w collaborators \<Rightarrow> bool \<Rightarrow> (int \<Rightarrow> real)
     \<Rightarrow> 'w trainer \<Rightarrow> error + (status \<times> 'w trainer)" where
  "fit_loop 0 D B E decoder clock T = Inr (Running, T)"
| "fit_loop (Suc fuel) D B E decoder clock T =
     (case budget_exhausted T of
        Some st \<Rightarrow> Inr (st, T)
      | None \<Rightarrow>
        (case step E (fst (next_batch E (world T))) (T\<lparr> world := snd (next_batch E (world T)) \<rparr>) of
           (T1, Some e) \<Rightarrow> Inl e
         | (T1, None) \<Rightarrow>
             (let T2 = end_of_epoch E T1
              in if updates (state T2) > 0 then
                   (if checkpoint_interval (config T2) * update_interval (config T2) = 0
                    then Inl ZeroDivisionError
                    else if batches (state T2)
                              mod (checkpoint_interval (config T2) * update_interval (config T2)) = 0
                    then
                      (case checkpoint_block D B E decoder clock T2 of
                         Inl e \<Rightarrow> Inl e
                       | Inr (st, T3) \<Rightarrow>
                           if st = Running then fit_loop fuel D B E decoder clock T3
                           else Inr (st, T3))
                    else fit_loop fuel D B E decoder clock T2)
                 else fit_loop fuel D B E decoder clock T2)))"

text \<open>
  \<open>fit\<close>, called at wall-clock time \<open>now\<close>: the check of the decoder, the resumption
  from the training-state directory or a fresh ledger, the translation of
  \<open>max_checkpoints\<close> into \<open>max_updates\<close>, the loop, the cleanup. The result is \<open>None\<close>
  when the loop has not ended within the fuel; otherwise the exception raised, or
  the trainer whose \<open>state\<close> is the ledger that \<open>fit\<close> returns.
\<close>

definition fit_prepare ::
  "externals \<Rightarrow> 'w collaborators \<Rightarrow> bool \<Rightarrow> real \<Rightarrow> 'w trainer \<Rightarrow> error + 'w trainer" where
  "fit_prepare D E decoder now T =
     (if early_stopping_metric (config T) \<in> set (METRICS_REQUIRING_DECODER D) \<and> \<not> decoder
      then Inl ConfigurationError
      else
        (case (case training_state T of
                 Some blob \<Rightarrow>
                   Inr (T\<lparr> world := effect E LoadTrainingState (world T),
                           state := TrainState_load now blob \<rparr>)
               | None \<Rightarrow>
                   (case TrainState_init D now (early_stopping_metric (config T)) of
                      Inl e \<Rightarrow> Inl e
                    | Inr s \<Rightarrow> Inr (T\<lparr> state := s, world := effect E SaveConfig (world T) \<rparr>))) of
           Inl e \<Rightarrow> Inl e
         | Inr T1 \<Rightarrow>
             (case max_checkpoints (config T1) of
                None \<Rightarrow> Inr T1
              | Some mc \<Rightarrow>
                  Inr (T1\<lparr> config := (config T1)\<lparr> max_updates :=
                         Some (updates (state T1) + mc * checkpoint_interval (config T1)) \<rparr> \<rparr>))))"

definition fit_finish ::
  "'w collaborators \<Rightarrow> error + (status \<times> 'w trainer) \<Rightarrow> (error + 'w trainer) option" where
  "fit_finish E r =
     (case r of
        Inl e \<Rightarrow> Some (Inl e)
      | Inr (st, T) \<Rightarrow>
          if st = Running then None
          else Some (Inr (T\<lparr> world := effect E (Cleanup (checkpoint (state T))
                                                   (best_checkpoint (state T))) (world T) \<rparr>)))"

definition fit ::
  "nat \<Rightarrow> externals \<Rightarrow> (int \<Rightarrow> broadcast) \<Rightarrow> 'w collaborators \<Rightarrow> bool \<Rightarrow> real \<Rightarrow> (int \<Rightarrow> real)
     \<Rightarrow> 'w trainer \<Rightarrow> (error + 'w trainer) option" where
  "fit fuel D B E decoder now clock T =
     (case fit_prepare D E decoder now T of
        Inl e \<Rightarrow> Some (Inl e)
      | Inr T1 \<Rightarrow> fit_finish E (fit_loop fuel D B E decoder clock T1))"

section \<open>Runs that differ in their wall-clock only\<close>




section \<open>A concrete setting\<close>

text \<open>
  One concrete choice of what the trainer imports, of a configuration and of a
  ledger, on which the theorems below are instantiated: training without Horovod,
  perplexity as the early-stopping metric (lower is better, worst value infinity),
  exact subtraction.
\<close>

definition ex_externals :: externals where
  "ex_externals = \<lparr>
     PERPLEXITY = ''perplexity'',
     METRIC_WORST = (\<lambda>n. if n = ''perplexity'' then Some PInf
                          else if n = ''bleu'' then Some (Fin 0) else None),
     METRICS_REQUIRING_DECODER = [''bleu''],
     MEASURE_SPEED_EVERY = 50,
     metric_value_is_better = spec_metric_value_is_better (\<lambda>n. n = ''bleu''),
     using_horovod = False,
     hvd_rank = 0,
     bcast_bool = (\<lambda>_ x. x),
     bcast_float = (\<lambda>x. x),
     float_round = Fin \<rparr>"

text \<open>The same on a secondary Horovod worker, to which the root sends \<open>True\<close> and \<open>3.0\<close>.\<close>

definition ex_secondary :: externals where
  "ex_secondary = ex_externals \<lparr> using_horovod := True, hvd_rank := 1,
     bcast_bool := (\<lambda>_ _. True), bcast_float := (\<lambda>_. Fin 3) \<rparr>"

definition ex_config :: TrainerConfig where
  "ex_config = \<lparr>
     output_dir = ''out'',
     early_stopping_metric = ''perplexity'',
     max_params_files_to_keep = 2,
     keep_initializations = False,
     checkpoint_interval = 2,
     max_num_checkpoint_not_improved = Some 2,
     checkpoint_improvement_threshold = Fin 0,
     max_checkpoints = None,
     min_samples = None,
     max_samples = None,
     min_updates = None,
     max_updates = None,
     min_epochs = None,
     max_epochs = None,
     max_seconds = None,
     update_interval = 1,
     stop_training_on_decoder_failure = False \<rparr>"

definition ex_state :: TrainState where
  "ex_state = \<lparr>
     num_not_improved = 2, epoch = 0, checkpoint = 4, best_checkpoint = 2,
     batches = 8, updates = 8, samples = 80, gradient_norm = None, gradients = [],
     metrics = [], start_tic = 0, tic_last_time_elapsed = 5, time_elapsed = 5,
     stopping_metric = ''perplexity'', best_metric = Fin 9,
     best_metric_history = [Fin 9, Fin 9, Fin 9], converged = False, diverged = False \<rparr>"

text \<open>What a call of \<open>_determine_improvement\<close> returns and leaves as the best value.\<close>

definition improvement_outcome ::
  "error + (bool \<times> TrainState) \<Rightarrow> error + (bool \<times> pyfloat \<times> int \<times> pyfloat list)" where
  "improvement_outcome r =
     (case r of
        Inl e \<Rightarrow> Inl e
      | Inr (b, s) \<Rightarrow> Inr (b, best_metric s, best_checkpoint s, best_metric_history s))"

definition ppl :: "real \<Rightarrow> LossMetric" where
  "ppl v = \<lparr> name = ''perplexity'', get = Fin v \<rparr>"

definition ex_accuracy :: LossMetric where
  "ex_accuracy = \<lparr> name = ''accuracy'', get = Fin (1/2) \<rparr>"

text \<open>
  Collaborators for the concrete setting. Their state is the number of batches drawn
  and the number of evaluations made; every batch has 10 samples, an epoch has 4
  batches, and the validation perplexity is 10 at the first checkpoint and 9 from
  then on. The checkpoint decoder of this setting reports a score under the name
  perplexity.
\<close>

definition ex_collaborators :: "(nat \<times> nat) collaborators" where
  "ex_collaborators = \<lparr>
     effect = (\<lambda>_ w. w),
     next_batch = (\<lambda>w. (\<lparr> batch_samples = 10, batch_tokens = 100 \<rparr>, (Suc (fst w), snd w))),
     iter_next = (\<lambda>w. fst w mod 4 \<noteq> 0),
     evaluate_losses = (\<lambda>w. ([ppl (if snd w = 0 then 10 else 9)], (fst w, Suc (snd w)))),
     decode_and_evaluate = (\<lambda>_ w. ([(''perplexity'', Fin 7)], w)),
     train_metrics = (\<lambda>_. []),
     learning_rate = (\<lambda>_. Fin (1 / 1000)),
     used_gpu_memory = (\<lambda>_. 0) \<rparr>"

definition ex_trainer :: "(nat \<times> nat) trainer" where
  "ex_trainer = \<lparr>
     config = ex_config, vocab_target_size = 100, state = ex_state,
     speedometer = Speedometer_init 50, world = (0, 0), training_state = None \<rparr>"

definition ex_batch :: Batch where
  "ex_batch = \<lparr> batch_samples = 10, batch_tokens = 100 \<rparr>"

text \<open>A fresh ledger, as \<open>TrainState.__init__\<close> builds it at time 0 for perplexity.\<close>

definition ex_fresh :: TrainState where
  "ex_fresh = \<lparr>
     num_not_improved = 0, epoch = 0, checkpoint = 0, best_checkpoint = 0,
     batches = 0, updates = 0, samples = 0, gradient_norm = None, gradients = [],
     metrics = [], start_tic = 0, tic_last_time_elapsed = 0, time_elapsed = 0,
     stopping_metric = ''perplexity'', best_metric = PInf,
     best_metric_history = [PInf], converged = False, diverged = False \<rparr>"

text \<open>A trainer with a fresh ledger that accumulates the gradients of two batches.\<close>

definition ex_accumulating :: "(nat \<times> nat) trainer" where
  "ex_accumulating =
     ex_trainer \<lparr> state := ex_fresh, config := ex_config \<lparr> update_interval := 2 \<rparr> \<rparr>"

text \<open>
  What rank 0 broadcasts in the concrete setting: an improvement at the even
  checkpoints only, and the index of the checkpoint as the improvement over the
  window.
\<close>

definition ex_broadcasts :: "int \<Rightarrow> broadcast" where
  "ex_broadcasts k = \<lparr> root_bool = (\<lambda>_ _. even k), root_float = (\<lambda>_. Fin (real_of_int k)) \<rparr>"

text \<open>A trainer that starts afresh, with budgets of epochs, updates and samples.\<close>

definition ex_budgeted ::
  "int option \<Rightarrow> int option \<Rightarrow> int option \<Rightarrow> (nat \<times> nat) trainer" where
  "ex_budgeted me mu ms =
     ex_trainer \<lparr> config := ex_config \<lparr> max_epochs := me, max_updates := mu, max_samples := ms \<rparr> \<rparr>"

text \<open>
  A trainer that resumes from \<open>ex_state\<close>, which was saved under a patience of 2,
  with the patience lowered to 1.
\<close>

definition ex_impatient :: "(nat \<times> nat) trainer" where
  "ex_impatient =
     ex_trainer \<lparr> config := ex_config \<lparr> max_num_checkpoint_not_improved := Some 1 \<rparr>,
                  training_state := Some ex_state \<rparr>"

text \<open>
  A run without a perplexity metric: the only loss metric is an accuracy, the
  checkpoint decoder reports a BLEU score of 0.25, and BLEU is the early-stopping
  metric.
\<close>

definition ex_no_perplexity :: "(nat \<times> nat) collaborators" where
  "ex_no_perplexity = ex_collaborators \<lparr>
     evaluate_losses := (\<lambda>w. ([ex_accuracy], (fst w, Suc (snd w)))),
     decode_and_evaluate := (\<lambda>_ w. ([(''bleu'', Fin (1 / 4))], w)) \<rparr>"

definition ex_bleu_trainer :: "(nat \<times> nat) trainer" where
  "ex_bleu_trainer = ex_trainer \<lparr> config := ex_config \<lparr> early_stopping_metric := ''bleu'' \<rparr> \<rparr>"




text \<open>The counters of the ledger that a run is observed by.\<close>

definition ledger_summary ::
  "'w trainer \<Rightarrow> int \<times> int \<times> int \<times> int \<times> int \<times> bool \<times> pyfloat list" where
  "ledger_summary T =
     (batches (state T), updates (state T), samples (state T), checkpoint (state T),
      best_checkpoint (state T), converged (state T), best_metric_history (state T))"


text \<open>The budgets of a trainer and what it has used of them.\<close>

definition budget_summary ::
  "'w trainer \<Rightarrow> (int option \<times> int) \<times> (int option \<times> int) \<times> (int option \<times> int)" where
  "budget_summary T =
     ((max_epochs (config T), epoch (state T)), (max_updates (config T), updates (state T)),
      (max_samples (config T), samples (state T)))"

lemmas ex_defs = ex_trainer_def ex_config_def ex_state_def ex_batch_def ex_collaborators_def
  ex_externals_def ex_secondary_def ex_fresh_def ex_accumulating_def ppl_def
  ex_accuracy_def ex_broadcasts_def ex_budgeted_def ex_impatient_def ex_no_perplexity_def
  ex_bleu_trainer_def

section \<open>Divergence\<close>

lemma last_perplexity_absent:
  "\<forall>m\<in>set ms. name m \<noteq> p \<Longrightarrow> last_perplexity p ms d = d"
  by (induction ms) auto

lemma last_perplexity_first:
  "\<forall>m\<in>set pre. name m \<noteq> p \<Longrightarrow> name m = p \<Longrightarrow> last_perplexity p (pre @ m # rest) d = get m"
  by (induction pre) auto

text \<open>
  C5. Let the validation metrics contain a metric named perplexity, and let \<open>m\<close> be
  the first of them. Then \<open>_determine_divergence\<close> returns True when the value of
  \<open>m\<close> is not finite (infinite or NaN), and for a finite value \<open>p\<close> it returns True
  exactly when \<open>p\<close> exceeds twice the target vocabulary size: it returns False for
  every finite \<open>p\<close> at or below that bound.
\<close>

theorem divergence_iff:
  assumes "\<forall>x\<in>set pre. name x \<noteq> PERPLEXITY D" and "name m = PERPLEXITY D"
  shows "determine_divergence D V (pre @ m # rest) =
           (case get m of Fin p \<Rightarrow> p > real_of_int (2 * V) | _ \<Rightarrow> True)"
  using assms by (simp add: determine_divergence_def last_perplexity_first split: pyfloat.splits)

theorem divergence_iff_witness:
  "determine_divergence ex_externals 100 [ex_accuracy, ppl 200, ppl 1000] = False
   \<and> determine_divergence ex_externals 100 [ex_accuracy, ppl 201] = True
   \<and> determine_divergence ex_externals 100 [\<lparr>name = ''perplexity'', get = PInf\<rparr>] = True"
  using divergence_iff [of "[ex_accuracy]" ex_externals "ppl 200" 100 "[ppl 1000]"]
        divergence_iff [of "[ex_accuracy]" ex_externals "ppl 201" 100 "[]"]
        divergence_iff [of "[]" ex_externals "\<lparr>name = ''perplexity'', get = PInf\<rparr>" 100 "[]"]
  by (simp add: ex_externals_def ex_accuracy_def ppl_def)

section \<open>Improvement\<close>

lemma improvement_loop_absent:
  "\<forall>m\<in>set ms. name m \<noteq> early_stopping_metric cfg \<Longrightarrow>
     improvement_loop D cfg i ms (v, b, s) = (v, b, s)"
  by (induction ms) auto

text \<open>
  C8. When no validation metric bears the configured early-stopping metric name,
  \<open>_determine_improvement\<close> does not return a result: its assertion fails.
\<close>

theorem improvement_asserts:
  "\<forall>m\<in>set val_metrics. name m \<noteq> early_stopping_metric cfg \<Longrightarrow>
     determine_improvement D cfg val_metrics s = Inl AssertionError"
  by (simp add: determine_improvement_def improvement_loop_absent)

theorem improvement_asserts_witness:
  "determine_improvement ex_externals ex_config [ex_accuracy] ex_state = Inl AssertionError"
  using improvement_asserts [of "[ex_accuracy]" ex_config ex_externals ex_state]
  by (simp add: ex_config_def ex_accuracy_def)

section \<open>The counters of the ledger\<close>

lemma div_step:
  fixes b u :: int
  assumes "1 \<le> u"
  shows "(b + 1) div u = b div u + (if (b + 1) mod u = 0 then 1 else 0)"
proof -
  have r: "0 \<le> b mod u" "b mod u < u" using assms by simp_all
  show ?thesis
  proof (cases "b mod u + 1 = u")
    case True
    have "b + 1 = u * (b div u + 1) + 0" using True
      by (metis add.right_neutral add.assoc distrib_left mult.right_neutral mult_div_mod_eq)
    then have "(b + 1) div u = b div u + 1 \<and> (b + 1) mod u = 0"
      using assms int_div_pos_eq [of "b + 1" u "b div u + 1" 0]
            int_mod_pos_eq [of "b + 1" u "b div u + 1" 0] by simp
    then show ?thesis by simp
  next
    case False
    have "b + 1 = u * (b div u) + (b mod u + 1)" by simp
    then have "(b + 1) div u = b div u \<and> (b + 1) mod u = b mod u + 1"
      using r False int_div_pos_eq [of "b + 1" u "b div u" "b mod u + 1"]
            int_mod_pos_eq [of "b + 1" u "b div u" "b mod u + 1"] by simp
    then show ?thesis using r by simp
  qed
qed

text \<open>
  One call of \<open>_step\<close> advances the counters whether or not the speedometer raises
  at its end.
\<close>

lemma step_counters:
  assumes "1 \<le> update_interval (config T)" and "step E batch T = (T', e)"
  shows "batches (state T') = batches (state T) + 1
       \<and> samples (state T') = samples (state T) + batch_samples batch
       \<and> updates (state T') =
           updates (state T)
             + (if (batches (state T) + 1) mod update_interval (config T) = 0 then 1 else 0)
       \<and> config T' = config T"
  using assms by (auto simp: step_def Let_def split: if_splits)

lemma steps_counters:
  assumes "1 \<le> update_interval (config T)" and "steps E bs T = (T', e)"
  shows "config T' = config T \<and> (e = None \<longrightarrow>
         batches (state T') = batches (state T) + int (length bs)
       \<and> samples (state T') = samples (state T) + sum_list (map batch_samples bs)
       \<and> updates (state T') = updates (state T)
            + ((batches (state T) + int (length bs)) div update_interval (config T)
               - batches (state T) div update_interval (config T)))"
  using assms
proof (induction bs arbitrary: T)
  case Nil
  then show ?case by simp
next
  case (Cons b bs)
  obtain T1 e1 where S: "step E b T = (T1, e1)" by (cases "step E b T")
  note C = step_counters [OF Cons.prems(1) S]
  show ?case
  proof (cases e1)
    case None
    with S Cons.prems have R: "steps E bs T1 = (T', e)" by simp
    from C Cons.prems(1) have U: "1 \<le> update_interval (config T1)" by simp
    from Cons.IH [OF U R] C div_step [OF Cons.prems(1), of "batches (state T)"]
    show ?thesis by (auto simp: algebra_simps)
  next
    case (Some x)
    with S Cons.prems C show ?thesis by auto
  qed
qed

text \<open>
  C2. With \<open>update_interval >= 1\<close> and a ledger whose counters are zero, after N
  calls of \<open>_step\<close> the counter of batches is N, the counter of samples is the sum
  of \<open>batch.samples\<close> over the N batches, and the counter of updates is
  \<open>floor(N / update_interval)\<close>; with \<open>update_interval = 1\<close> it is N.
\<close>

theorem step_counts:
  assumes "1 \<le> update_interval (config T)"
    and "batches (state T) = 0" and "updates (state T) = 0" and "samples (state T) = 0"
    and "steps E bs T = (T', None)"
  shows "batches (state T') = int (length bs)
       \<and> samples (state T') = sum_list (map batch_samples bs)
       \<and> updates (state T') = int (length bs) div update_interval (config T)
       \<and> (update_interval (config T) = 1 \<longrightarrow> updates (state T') = int (length bs))"
  using steps_counters [OF assms(1) assms(5)] assms(2-4) by auto

theorem step_counts_witness:
  "snd (steps ex_collaborators [ex_batch, ex_batch, ex_batch] ex_accumulating) = None
   \<and> batches (state (fst (steps ex_collaborators [ex_batch, ex_batch, ex_batch] ex_accumulating))) = 3
   \<and> samples (state (fst (steps ex_collaborators [ex_batch, ex_batch, ex_batch] ex_accumulating))) = 30
   \<and> updates (state (fst (steps ex_collaborators [ex_batch, ex_batch, ex_batch] ex_accumulating))) = 1"
proof -
  let ?r = "steps ex_collaborators [ex_batch, ex_batch, ex_batch] ex_accumulating"
  have n: "snd ?r = None"
    by (simp add: ex_defs step_def Let_def Speedometer_call_def Speedometer_init_def)
  then have h: "?r = (fst ?r, None)" by (metis prod.collapse)
  have u: "1 \<le> update_interval (config ex_accumulating)" by (simp add: ex_defs)
  have z: "batches (state ex_accumulating) = 0" "updates (state ex_accumulating) = 0"
    "samples (state ex_accumulating) = 0" by (simp_all add: ex_defs)
  from step_counts [OF u z h] n show ?thesis by (simp add: ex_defs)
qed

section \<open>Evaluation\<close>

text \<open>The assertion on the names of the decoder's metrics never fails.\<close>

lemma merge_never_fails:
  "merge_decoder_metrics dm vm = Inr (vm @ map (\<lambda>(n, v). \<lparr> name = n, get = v \<rparr>) dm)"
  by (induction dm vm rule: merge_decoder_metrics.induct) (auto simp: py_in_def)

text \<open>
  C3. The claim is that \<open>_evaluate\<close> fails when the checkpoint decoder returns a
  metric whose name a validation metric already bears. In the concrete setting the
  validation metrics are a perplexity of 10 and the decoder returns a score named
  perplexity: \<open>_evaluate\<close> returns, with two metrics of that name.
\<close>

theorem evaluate_appends_duplicate:
  "evaluate ex_collaborators True 1 (0, 0)
     = Inr ([\<lparr> name = ''perplexity'', get = Fin 10 \<rparr>,
             \<lparr> name = ''perplexity'', get = Fin 7 \<rparr>], (0, 1))"
  by (simp add: evaluate_def ex_collaborators_def py_in_def ppl_def)

section \<open>What a call of \<open>_determine_improvement\<close> does to the ledger\<close>

lemma improvement_loop_frame:
  "improvement_loop D cfg i ms (v, b, s) = (v', b', s') \<Longrightarrow>
     best_metric_history s' = best_metric_history s \<and> checkpoint s' = checkpoint s"
  by (induction ms arbitrary: i v b s) (auto simp: Let_def split: if_splits)

lemma improvement_loop_best_checkpoint:
  "improvement_loop D cfg i ms (v, b, s) = (v', b', s') \<Longrightarrow>
     best_checkpoint s \<le> checkpoint s \<Longrightarrow> best_checkpoint s' \<le> checkpoint s'"
  by (induction ms arbitrary: i v b s) (auto simp: Let_def split: if_splits)

lemma improvement_loop_monotone:
  assumes "improvement_loop D cfg i ms (v, b, s) = (v', b', s')"
    and "\<not> using_horovod D \<or> hvd_rank D = 0"
  shows "(\<lambda>old new. metric_value_is_better D new old (early_stopping_metric cfg))\<^sup>*\<^sup>*
           (best_metric s) (best_metric s')"
  using assms
proof (induction ms arbitrary: i v b s)
  case Nil
  then show ?case by simp
next
  case (Cons m ms)
  show ?case
  proof (cases "name m = early_stopping_metric cfg
                \<and> metric_value_is_better D (get m) (best_metric s) (early_stopping_metric cfg)")
    case True
    let ?s1 = "s\<lparr> best_metric := get m, best_checkpoint := checkpoint s, num_not_improved := 0 \<rparr>"
    from True Cons.prems have "improvement_loop D cfg (Suc i) ms (Some (get m), True, ?s1) = (v', b', s')"
      by (auto simp: Let_def comm_bcast_bool_def split: if_splits)
    from Cons.IH [OF this Cons.prems(2)] True show ?thesis
      by (auto intro: converse_rtranclp_into_rtranclp)
  next
    case False
    from False Cons.prems have "\<exists>j v1 b1. improvement_loop D cfg j ms (v1, b1, s) = (v', b', s')"
      by (auto simp: Let_def comm_bcast_bool_def split: if_splits)
    then show ?thesis using Cons.IH Cons.prems(2) by blast
  qed
qed

lemma improvement_loop_no_improvement:
  assumes "\<not> using_horovod D \<or> hvd_rank D = 0"
    and "\<forall>m\<in>set ms. name m = early_stopping_metric cfg \<longrightarrow>
           \<not> metric_value_is_better D (get m) (best_metric s) (early_stopping_metric cfg)"
  shows "\<exists>v'. improvement_loop D cfg i ms (v, False, s) = (v', False, s)"
  using assms by (induction ms arbitrary: i v) (auto simp: Let_def comm_bcast_bool_def)

lemma determine_improvement_Inr:
  assumes "determine_improvement D cfg ms s = Inr (b, s')"
  obtains v s1 where "improvement_loop D cfg 0 ms (None, False, s) = (Some v, b, s1)"
    and "best_metric s' = best_metric s1" and "best_checkpoint s' = best_checkpoint s1"
    and "checkpoint s' = checkpoint s1"
    and "best_metric_history s' =
           (let h = best_metric_history s1 @ [best_metric s1]
            in case max_num_checkpoint_not_improved cfg of
                 None \<Rightarrow> h
               | Some m \<Rightarrow> if int (length h) > m + 1 then tl h else h)"
proof -
  obtain v b1 s1 where L: "improvement_loop D cfg 0 ms (None, False, s) = (v, b1, s1)"
    by (metis prod_cases3)
  with assms have "v \<noteq> None" by (auto simp: determine_improvement_def split: if_splits)
  then obtain x where "v = Some x" by auto
  with L assms that [of x s1] show thesis
    by (auto simp: determine_improvement_def Let_def split: if_splits option.splits)
qed

lemma improvement_history:
  assumes "determine_improvement D cfg ms s = Inr (b, s')"
  shows "best_metric_history s' =
           (let h = best_metric_history s @ [best_metric s']
            in case max_num_checkpoint_not_improved cfg of
                 None \<Rightarrow> h
               | Some m \<Rightarrow> if int (length h) > m + 1 then tl h else h)"
proof -
  from assms obtain v s1 where L: "improvement_loop D cfg 0 ms (None, False, s) = (Some v, b, s1)"
    and B: "best_metric s' = best_metric s1"
    and H: "best_metric_history s' =
           (let h = best_metric_history s1 @ [best_metric s1]
            in case max_num_checkpoint_not_improved cfg of
                 None \<Rightarrow> h
               | Some m \<Rightarrow> if int (length h) > m + 1 then tl h else h)"
    by (rule determine_improvement_Inr)
  from improvement_loop_frame [OF L] B H show ?thesis by simp
qed

lemma improvement_history_bound:
  assumes "determine_improvement D cfg ms s = Inr (b, s')"
    and "max_num_checkpoint_not_improved cfg = Some m"
    and "int (length (best_metric_history s)) \<le> m + 1"
  shows "int (length (best_metric_history s')) \<le> m + 1"
  using improvement_history [OF assms(1)] assms(2,3) by (auto simp: Let_def)

lemma improvement_checkpoints:
  assumes "determine_improvement D cfg ms s = Inr (b, s')"
  shows "checkpoint s' = checkpoint s"
    and "best_checkpoint s \<le> checkpoint s \<Longrightarrow> best_checkpoint s' \<le> checkpoint s'"
proof -
  from assms obtain v s1 where L: "improvement_loop D cfg 0 ms (None, False, s) = (Some v, b, s1)"
    and B: "best_checkpoint s' = best_checkpoint s1" and C: "checkpoint s' = checkpoint s1"
    by (rule determine_improvement_Inr)
  from improvement_loop_frame [OF L] C show "checkpoint s' = checkpoint s" by simp
  assume "best_checkpoint s \<le> checkpoint s"
  from improvement_loop_best_checkpoint [OF L this] B C
  show "best_checkpoint s' \<le> checkpoint s'" by simp
qed

lemma improvement_monotone:
  assumes "determine_improvement D cfg ms s = Inr (b, s')"
    and "\<not> using_horovod D \<or> hvd_rank D = 0"
  shows "(\<lambda>old new. metric_value_is_better D new old (early_stopping_metric cfg))\<^sup>*\<^sup>*
           (best_metric s) (best_metric s')"
proof -
  from assms(1) obtain v s1 where L: "improvement_loop D cfg 0 ms (None, False, s) = (Some v, b, s1)"
    and B: "best_metric s' = best_metric s1"
    by (rule determine_improvement_Inr)
  from improvement_loop_monotone [OF L assms(2)] B show ?thesis by simp
qed

lemma improvement_unchanged:
  assumes "determine_improvement D cfg ms s = Inr (b, s')"
    and "\<not> using_horovod D \<or> hvd_rank D = 0"
    and "\<forall>m\<in>set ms. name m = early_stopping_metric cfg \<longrightarrow>
           \<not> metric_value_is_better D (get m) (best_metric s) (early_stopping_metric cfg)"
  shows "\<not> b \<and> best_metric s' = best_metric s \<and> best_checkpoint s' = best_checkpoint s
         \<and> num_not_improved s' = num_not_improved s + 1"
proof -
  from improvement_loop_no_improvement [OF assms(2,3)]
  obtain v' where "improvement_loop D cfg 0 ms (None, False, s) = (v', False, s)" by blast
  with assms(1) show ?thesis
    by (auto simp: determine_improvement_def Let_def split: if_splits option.splits)
qed

section \<open>One iteration of the loop\<close>

lemma at_checkpoint_simps [simp]:
  "using_horovod (at_checkpoint D B k) = using_horovod D"
  "hvd_rank (at_checkpoint D B k) = hvd_rank D"
  "metric_value_is_better (at_checkpoint D B k) = metric_value_is_better D"
  "PERPLEXITY (at_checkpoint D B k) = PERPLEXITY D"
  "float_round (at_checkpoint D B k) = float_round D"
  "bcast_bool (at_checkpoint D B k) = root_bool (B k)"
  "bcast_float (at_checkpoint D B k) = root_float (B k)"
  by (simp_all add: at_checkpoint_def)

lemma step_frame:
  assumes "step E b T = (T', e)"
  shows "config T' = config T \<and> vocab_target_size T' = vocab_target_size T
       \<and> checkpoint (state T') = checkpoint (state T)
       \<and> best_checkpoint (state T') = best_checkpoint (state T)
       \<and> best_metric (state T') = best_metric (state T)
       \<and> best_metric_history (state T') = best_metric_history (state T)
       \<and> diverged (state T') = diverged (state T)"
  using assms by (auto simp: step_def Let_def split: if_splits)

lemma end_of_epoch_frame:
  "config (end_of_epoch E T) = config T \<and> vocab_target_size (end_of_epoch E T) = vocab_target_size T
   \<and> checkpoint (state (end_of_epoch E T)) = checkpoint (state T)
   \<and> best_checkpoint (state (end_of_epoch E T)) = best_checkpoint (state T)
   \<and> best_metric (state (end_of_epoch E T)) = best_metric (state T)
   \<and> best_metric_history (state (end_of_epoch E T)) = best_metric_history (state T)
   \<and> diverged (state (end_of_epoch E T)) = diverged (state T)"
  by (simp add: end_of_epoch_def)

lemma persist_frame:
  "config (persist E clock b vm T) = config T
   \<and> vocab_target_size (persist E clock b vm T) = vocab_target_size T
   \<and> checkpoint (state (persist E clock b vm T)) = checkpoint (state T)
   \<and> best_checkpoint (state (persist E clock b vm T)) = best_checkpoint (state T)
   \<and> best_metric (state (persist E clock b vm T)) = best_metric (state T)
   \<and> best_metric_history (state (persist E clock b vm T)) = best_metric_history (state T)
   \<and> diverged (state (persist E clock b vm T)) = diverged (state T)"
  by (simp add: persist_def write_metrics_file_def save_training_state_def
        adjust_and_keep_best_def TrainState_save_def update_time_elapsed_def Let_def)

lemma checkpoint_decisions_Inr:
  assumes "checkpoint_decisions D vm T = Inr (b, T1)"
  obtains s2 conv where "determine_improvement D (config T) vm (state T) = Inr (b, s2)"
    and "determine_convergence D (config T) s2 = Inr conv"
    and "T1 = T\<lparr> state := s2\<lparr> converged := conv,
                  diverged := determine_divergence D (vocab_target_size T) vm \<rparr> \<rparr>"
  using assms unfolding checkpoint_decisions_def
  by (auto split: sum.splits prod.splits)

lemma checkpoint_block_Inr:
  assumes "checkpoint_block D B E decoder clock T = Inr (st, T')"
  obtains vm w b T1 where
    "evaluate E decoder (checkpoint (state T) + 1)
       (effect E (SaveParams (checkpoint (state T) + 1) (best_checkpoint (state T))) (world T))
     = Inr (vm, w)"
    and "checkpoint_decisions (at_checkpoint D B (checkpoint (state T) + 1)) vm
           ((advance_checkpoint E T)\<lparr> world := w \<rparr>) = Inr (b, T1)"
    and "T' = persist E clock b vm T1" and "st = checkpoint_status T'"
  using assms unfolding checkpoint_block_def
  by (auto simp: advance_checkpoint_def split: sum.splits prod.splits)

lemma checkpoint_block_improvement:
  assumes "checkpoint_block D B E decoder clock T = Inr (st, T')"
  shows "config T' = config T \<and> vocab_target_size T' = vocab_target_size T
     \<and> (\<exists>vm b s2. determine_improvement (at_checkpoint D B (checkpoint (state T) + 1)) (config T) vm
                     ((state T) \<lparr> checkpoint := checkpoint (state T) + 1 \<rparr>) = Inr (b, s2)
          \<and> checkpoint (state T') = checkpoint s2 \<and> best_checkpoint (state T') = best_checkpoint s2
          \<and> best_metric (state T') = best_metric s2
          \<and> best_metric_history (state T') = best_metric_history s2)"
proof -
  let ?D = "at_checkpoint D B (checkpoint (state T) + 1)"
  from assms obtain vm w b T1 where
    d: "checkpoint_decisions ?D vm ((advance_checkpoint E T)\<lparr> world := w \<rparr>) = Inr (b, T1)"
    and p: "T' = persist E clock b vm T1"
    by (rule checkpoint_block_Inr)
  let ?A = "(advance_checkpoint E T)\<lparr> world := w \<rparr>"
  from d obtain s2 conv where
    i: "determine_improvement ?D (config ?A) vm (state ?A) = Inr (b, s2)"
    and t: "T1 = ?A\<lparr> state := s2\<lparr> converged := conv,
                  diverged := determine_divergence ?D (vocab_target_size ?A) vm \<rparr> \<rparr>"
    by (rule checkpoint_decisions_Inr)
  have a: "config ?A = config T" "vocab_target_size ?A = vocab_target_size T"
    "state ?A = (state T) \<lparr> checkpoint := checkpoint (state T) + 1 \<rparr>"
    by (simp_all add: advance_checkpoint_def)
  from persist_frame [of E clock b vm T1] p t a
  have "config T' = config T \<and> vocab_target_size T' = vocab_target_size T
      \<and> checkpoint (state T') = checkpoint s2 \<and> best_checkpoint (state T') = best_checkpoint s2
      \<and> best_metric (state T') = best_metric s2
      \<and> best_metric_history (state T') = best_metric_history s2" by simp
  with i a show ?thesis by auto
qed

text \<open>
  An iteration that does not end the loop hands a trainer to the next one; the
  iteration does not depend on the fuel that is left.
\<close>

lemma fit_loop_Suc_cases:
  assumes "fit_loop (Suc n) D B E decoder clock T = Inr (st, T')"
  obtains (stop) "T' = T" "budget_exhausted T = Some st"
  | (last) T1 where
      "budget_exhausted T = None"
      "step E (fst (next_batch E (world T))) (T\<lparr> world := snd (next_batch E (world T)) \<rparr>) = (T1, None)"
      "checkpoint_block D B E decoder clock (end_of_epoch E T1) = Inr (st, T')"
      "st \<noteq> Running"
  | (plain) T1 where
      "budget_exhausted T = None"
      "step E (fst (next_batch E (world T))) (T\<lparr> world := snd (next_batch E (world T)) \<rparr>) = (T1, None)"
      "fit_loop n D B E decoder clock (end_of_epoch E T1) = Inr (st, T')"
      "\<And>m. fit_loop (Suc m) D B E decoder clock T = fit_loop m D B E decoder clock (end_of_epoch E T1)"
  | (more) T1 T3 where
      "budget_exhausted T = None"
      "step E (fst (next_batch E (world T))) (T\<lparr> world := snd (next_batch E (world T)) \<rparr>) = (T1, None)"
      "checkpoint_block D B E decoder clock (end_of_epoch E T1) = Inr (Running, T3)"
      "fit_loop n D B E decoder clock T3 = Inr (st, T')"
      "\<And>m. fit_loop (Suc m) D B E decoder clock T = fit_loop m D B E decoder clock T3"
proof (cases "budget_exhausted T")
  case (Some x)
  with assms have "T' = T" "budget_exhausted T = Some st" by simp_all
  then show thesis by (rule stop)
next
  case None
  let ?r = "step E (fst (next_batch E (world T))) (T\<lparr> world := snd (next_batch E (world T)) \<rparr>)"
  obtain T1 e where S: "?r = (T1, e)" by (cases ?r)
  from assms None S have e: "e = None" by (cases e) simp_all
  let ?T2 = "end_of_epoch E T1"
  show thesis
  proof (cases "updates (state ?T2) > 0
                \<and> batches (state ?T2)
                     mod (checkpoint_interval (config ?T2) * update_interval (config ?T2)) = 0")
    case False
    have z: "\<not> (updates (state ?T2) > 0
                 \<and> checkpoint_interval (config ?T2) * update_interval (config ?T2) = 0)"
      using assms None S e by (auto simp: Let_def split: if_splits)
    from False z None S e
    have u: "fit_loop (Suc m) D B E decoder clock T = fit_loop m D B E decoder clock ?T2" for m
      by (auto simp: Let_def)
    from assms u [of n] have "fit_loop n D B E decoder clock ?T2 = Inr (st, T')" by simp
    with None S e u show thesis by (auto intro: plain)
  next
    case True
    have z: "checkpoint_interval (config ?T2) * update_interval (config ?T2) \<noteq> 0"
      using assms None S e True
      by (cases "checkpoint_interval (config ?T2) * update_interval (config ?T2) = 0")
         (simp_all add: Let_def)
    show thesis
    proof (cases "checkpoint_block D B E decoder clock ?T2")
      case (Inl x)
      with assms None S e True z show thesis by (simp add: Let_def)
    next
      case (Inr p)
      obtain st3 T3 where p: "p = (st3, T3)" by (cases p)
      show thesis
      proof (cases "st3 = Running")
        case True
        from True None S e \<open>updates (state ?T2) > 0 \<and> _\<close> z Inr p
        have u: "fit_loop (Suc m) D B E decoder clock T = fit_loop m D B E decoder clock T3" for m
          by (simp add: Let_def)
        from assms u [of n] have "fit_loop n D B E decoder clock T3 = Inr (st, T')" by simp
        with None S e Inr p True u show thesis by (auto intro: more)
      next
        case False
        with assms None S e \<open>updates (state ?T2) > 0 \<and> _\<close> z Inr p
        have "st = st3 \<and> T' = T3" by (simp add: Let_def)
        with None S e Inr p False show thesis by (auto intro: last)
      qed
    qed
  qed
qed

lemma budget_exhausted_status:
  assumes "budget_exhausted T = Some st"
  shows "st \<noteq> Running \<and> st \<noteq> MaxSecondsReached \<and> st \<noteq> ConvergedOrDiverged"
  using assms by (auto simp: budget_exhausted_def split: if_splits)

lemma checkpoint_status_cases:
  "checkpoint_status T = Running \<or> checkpoint_status T = MaxSecondsReached
   \<or> checkpoint_status T = ConvergedOrDiverged"
  by (simp add: checkpoint_status_def)

text \<open>
  A loop that is still running after \<open>n\<close> iterations goes on, with more fuel, from
  the trainer that it has reached.
\<close>

lemma fit_loop_Running:
  assumes "fit_loop n D B E decoder clock T = Inr (Running, T')"
  shows "fit_loop (n + k) D B E decoder clock T = fit_loop k D B E decoder clock T'"
  using assms
proof (induction n arbitrary: T)
  case 0
  then show ?case by simp
next
  case (Suc n)
  from Suc.prems show ?case
  proof (cases rule: fit_loop_Suc_cases)
    case stop
    with budget_exhausted_status show ?thesis by blast
  next
    case (last T1)
    then show ?thesis by simp
  next
    case (plain T1)
    from Suc.IH [OF plain(3)] plain(4) [of "n + k"] show ?thesis by simp
  next
    case (more T1 T3)
    from Suc.IH [OF more(4)] more(5) [of "n + k"] show ?thesis by simp
  qed
qed

text \<open>The loop ends for a budget only at a head at which that budget is exhausted.\<close>

lemma fit_loop_budget:
  assumes "fit_loop n D B E decoder clock T = Inr (st, T')"
    and "st = MaxEpochsReached \<or> st = MaxUpdatesReached \<or> st = MaxSamplesReached"
  shows "budget_exhausted T' = Some st"
  using assms
proof (induction n arbitrary: T)
  case 0
  then show ?case by auto
next
  case (Suc n)
  from Suc.prems(1) show ?case
  proof (cases rule: fit_loop_Suc_cases)
    case stop
    then show ?thesis by simp
  next
    case (last T1)
    from checkpoint_block_Inr [OF last(3)] have "st = checkpoint_status T'" by metis
    with checkpoint_status_cases [of T'] Suc.prems(2) show ?thesis by auto
  next
    case (plain T1)
    from Suc.IH [OF plain(3) Suc.prems(2)] show ?thesis .
  next
    case (more T1 T3)
    from Suc.IH [OF more(4) Suc.prems(2)] show ?thesis .
  qed
qed

lemma fit_loop_invariant:
  assumes "fit_loop n D B E decoder clock T = Inr (st, T')"
    and "P (state T)"
    and frame: "\<And>s s'. P s \<Longrightarrow> checkpoint s' = checkpoint s \<Longrightarrow> best_checkpoint s' = best_checkpoint s
             \<Longrightarrow> best_metric s' = best_metric s \<Longrightarrow> best_metric_history s' = best_metric_history s
             \<Longrightarrow> P s'"
    and improve: "\<And>s vm b s'. P s \<Longrightarrow>
             determine_improvement (at_checkpoint D B (checkpoint s + 1)) (config T) vm
               (s \<lparr> checkpoint := checkpoint s + 1 \<rparr>) = Inr (b, s')
             \<Longrightarrow> P s'"
  shows "P (state T') \<and> config T' = config T"
  using assms(1,2,4)
proof (induction n arbitrary: T)
  case 0
  then show ?case by simp
next
  case (Suc n)
  let ?T0 = "T\<lparr> world := snd (next_batch E (world T)) \<rparr>"
  have after_step: "P (state (end_of_epoch E T1)) \<and> config (end_of_epoch E T1) = config T"
    if "step E (fst (next_batch E (world T))) ?T0 = (T1, None)" for T1
  proof -
    from step_frame [OF that] end_of_epoch_frame [of E T1]
    have "checkpoint (state (end_of_epoch E T1)) = checkpoint (state T)"
      "best_checkpoint (state (end_of_epoch E T1)) = best_checkpoint (state T)"
      "best_metric (state (end_of_epoch E T1)) = best_metric (state T)"
      "best_metric_history (state (end_of_epoch E T1)) = best_metric_history (state T)"
      and c: "config (end_of_epoch E T1) = config T" by simp_all
    from frame [OF Suc.prems(2) this(1-4)] c show ?thesis by simp
  qed
  have after_block: "P (state T3) \<and> config T3 = config T"
    if "P (state T2)" "config T2 = config T"
       "checkpoint_block D B E decoder clock T2 = Inr (st', T3)" for T2 T3 st'
  proof -
    from checkpoint_block_improvement [OF that(3)] that(2)
    obtain vm b s2 where c: "config T3 = config T"
      and i: "determine_improvement (at_checkpoint D B (checkpoint (state T2) + 1)) (config T) vm
                ((state T2) \<lparr> checkpoint := checkpoint (state T2) + 1 \<rparr>) = Inr (b, s2)"
      and e: "checkpoint (state T3) = checkpoint s2" "best_checkpoint (state T3) = best_checkpoint s2"
             "best_metric (state T3) = best_metric s2"
             "best_metric_history (state T3) = best_metric_history s2"
      by auto
    from Suc.prems(3) [OF that(1) i] have "P s2" .
    from frame [OF this e] c show ?thesis by simp
  qed
  from Suc.prems(1) show ?case
  proof (cases rule: fit_loop_Suc_cases)
    case stop
    with Suc.prems show ?thesis by simp
  next
    case (plain T1)
    from after_step [OF plain(2)] Suc.IH [OF plain(3)] Suc.prems(3) show ?thesis by simp
  next
    case (last T1)
    from after_step [OF last(2)] after_block [OF _ _ last(3)] show ?thesis by simp
  next
    case (more T1 T3)
    from after_step [OF more(2)] after_block [OF _ _ more(3)]
    have "P (state T3) \<and> config T3 = config T" by simp
    with Suc.IH [OF more(4)] Suc.prems(3) show ?thesis by simp
  qed
qed

lemma fit_prepare_fresh:
  assumes "training_state T0 = None" and "fit_prepare D E decoder now T0 = Inr T"
  shows "\<exists>w. best_metric_history (state T) = [w]"
    and "max_num_checkpoint_not_improved (config T) = max_num_checkpoint_not_improved (config T0)"
    and "best_checkpoint (state T) = 0" and "checkpoint (state T) = 0"
  using assms
  by (auto simp: fit_prepare_def TrainState_init_def split: if_splits option.splits sum.splits)

lemma fit_Some_Inr:
  assumes "fit n D B E decoder now clock T0 = Some (Inr T1)"
  obtains T st T' where "fit_prepare D E decoder now T0 = Inr T"
    and "fit_loop n D B E decoder clock T = Inr (st, T')" and "state T1 = state T'"
  using assms
  by (auto simp: fit_def fit_finish_def split: sum.splits prod.splits if_splits)

section \<open>The budgets of the loop\<close>

text \<open>
  C9. Let the loop of \<open>fit\<close>, entered with the trainer \<open>T\<close>, have made \<open>n\<close>
  iterations (none, or any number) without ending, and let \<open>T'\<close> be the trainer
  then. At the head of the next iteration, before a batch is pulled, the loop ends
  when the epoch count equals \<open>max_epochs\<close>; otherwise when the update count equals
  \<open>max_updates\<close>; otherwise when the sample count has reached \<open>max_samples\<close>. In each
  case the loop ends with the trainer \<open>T'\<close> as it is (no batch is drawn, the ledger
  is unchanged) however much fuel is left, and \<open>fit\<close> returns, with that ledger,
  after its cleanup. Conversely the loop ends for one of these budgets only with a
  trainer in which that budget is exhausted and no earlier one is.
\<close>

theorem stop_conditions:
  assumes "fit_loop n D B E decoder clock T = Inr (Running, T')"
  shows "((case max_epochs (config T') of None \<Rightarrow> False | Some m \<Rightarrow> epoch (state T') = m) \<longrightarrow>
            fit_loop (n + Suc fuel) D B E decoder clock T = Inr (MaxEpochsReached, T'))
       \<and> (\<not> (case max_epochs (config T') of None \<Rightarrow> False | Some m \<Rightarrow> epoch (state T') = m)
          \<and> (case max_updates (config T') of None \<Rightarrow> False | Some m \<Rightarrow> updates (state T') = m) \<longrightarrow>
            fit_loop (n + Suc fuel) D B E decoder clock T = Inr (MaxUpdatesReached, T'))
       \<and> (\<not> (case max_epochs (config T') of None \<Rightarrow> False | Some m \<Rightarrow> epoch (state T') = m)
          \<and> \<not> (case max_updates (config T') of None \<Rightarrow> False | Some m \<Rightarrow> updates (state T') = m)
          \<and> (case max_samples (config T') of None \<Rightarrow> False | Some m \<Rightarrow> samples (state T') \<ge> m) \<longrightarrow>
            fit_loop (n + Suc fuel) D B E decoder clock T = Inr (MaxSamplesReached, T'))
       \<and> (fit_prepare D E decoder now T0 = Inr T
          \<and> ((case max_epochs (config T') of None \<Rightarrow> False | Some m \<Rightarrow> epoch (state T') = m)
             \<or> (case max_updates (config T') of None \<Rightarrow> False | Some m \<Rightarrow> updates (state T') = m)
             \<or> (case max_samples (config T') of None \<Rightarrow> False | Some m \<Rightarrow> samples (state T') \<ge> m)) \<longrightarrow>
            fit (n + Suc fuel) D B E decoder now clock T0
              = Some (Inr (T'\<lparr> world := effect E (Cleanup (checkpoint (state T'))
                                                   (best_checkpoint (state T'))) (world T') \<rparr>)))
       \<and> (fit_loop k D B E decoder clock T = Inr (MaxEpochsReached, T2) \<longrightarrow>
            (case max_epochs (config T2) of None \<Rightarrow> False | Some m \<Rightarrow> epoch (state T2) = m))
       \<and> (fit_loop k D B E decoder clock T = Inr (MaxUpdatesReached, T2) \<longrightarrow>
            \<not> (case max_epochs (config T2) of None \<Rightarrow> False | Some m \<Rightarrow> epoch (state T2) = m)
            \<and> (case max_updates (config T2) of None \<Rightarrow> False | Some m \<Rightarrow> updates (state T2) = m))
       \<and> (fit_loop k D B E decoder clock T = Inr (MaxSamplesReached, T2) \<longrightarrow>
            \<not> (case max_epochs (config T2) of None \<Rightarrow> False | Some m \<Rightarrow> epoch (state T2) = m)
            \<and> \<not> (case max_updates (config T2) of None \<Rightarrow> False | Some m \<Rightarrow> updates (state T2) = m)
            \<and> (case max_samples (config T2) of None \<Rightarrow> False | Some m \<Rightarrow> samples (state T2) \<ge> m))"
proof -
  have next_head: "fit_loop (n + Suc fuel) D B E decoder clock T
                     = fit_loop (Suc fuel) D B E decoder clock T'"
    by (rule fit_loop_Running [OF assms])
  have budget: "budget_exhausted T2 = Some st"
    if "fit_loop k D B E decoder clock T = Inr (st, T2)"
      and "st = MaxEpochsReached \<or> st = MaxUpdatesReached \<or> st = MaxSamplesReached" for st
    using that by (rule fit_loop_budget)
  show ?thesis
  proof (intro conjI impI)
    assume "case max_epochs (config T') of None \<Rightarrow> False | Some m \<Rightarrow> epoch (state T') = m"
    then show "fit_loop (n + Suc fuel) D B E decoder clock T = Inr (MaxEpochsReached, T')"
      unfolding next_head by (simp add: budget_exhausted_def)
  next
    assume "\<not> (case max_epochs (config T') of None \<Rightarrow> False | Some m \<Rightarrow> epoch (state T') = m)
          \<and> (case max_updates (config T') of None \<Rightarrow> False | Some m \<Rightarrow> updates (state T') = m)"
    then show "fit_loop (n + Suc fuel) D B E decoder clock T = Inr (MaxUpdatesReached, T')"
      unfolding next_head by (simp add: budget_exhausted_def)
  next
    assume "\<not> (case max_epochs (config T') of None \<Rightarrow> False | Some m \<Rightarrow> epoch (state T') = m)
          \<and> \<not> (case max_updates (config T') of None \<Rightarrow> False | Some m \<Rightarrow> updates (state T') = m)
          \<and> (case max_samples (config T') of None \<Rightarrow> False | Some m \<Rightarrow> samples (state T') \<ge> m)"
    then show "fit_loop (n + Suc fuel) D B E decoder clock T = Inr (MaxSamplesReached, T')"
      unfolding next_head by (simp add: budget_exhausted_def)
  next
    assume "fit_prepare D E decoder now T0 = Inr T
          \<and> ((case max_epochs (config T') of None \<Rightarrow> False | Some m \<Rightarrow> epoch (state T') = m)
             \<or> (case max_updates (config T') of None \<Rightarrow> False | Some m \<Rightarrow> updates (state T') = m)
             \<or> (case max_samples (config T') of None \<Rightarrow> False | Some m \<Rightarrow> samples (state T') \<ge> m))"
    then have p: "fit_prepare D E decoder now T0 = Inr T"
      and b: "budget_exhausted T' \<noteq> None"
      by (auto simp: budget_exhausted_def)
    from b obtain st where s: "budget_exhausted T' = Some st" by auto
    from p have "fit (n + Suc fuel) D B E decoder now clock T0
                   = fit_finish E (fit_loop (n + Suc fuel) D B E decoder clock T)"
      by (simp only: fit_def sum.case)
    also have "\<dots> = fit_finish E (Inr (st, T'))"
      unfolding next_head using s by simp
    finally show "fit (n + Suc fuel) D B E decoder now clock T0
              = Some (Inr (T'\<lparr> world := effect E (Cleanup (checkpoint (state T'))
                                                   (best_checkpoint (state T'))) (world T') \<rparr>))"
      using budget_exhausted_status [OF s] by (simp add: fit_finish_def)
  next
    assume "fit_loop k D B E decoder clock T = Inr (MaxEpochsReached, T2)"
    from budget [OF this]
    show "case max_epochs (config T2) of None \<Rightarrow> False | Some m \<Rightarrow> epoch (state T2) = m"
      by (simp add: budget_exhausted_def split: if_splits)
  next
    assume "fit_loop k D B E decoder clock T = Inr (MaxUpdatesReached, T2)"
    from budget [OF this]
    show "\<not> (case max_epochs (config T2) of None \<Rightarrow> False | Some m \<Rightarrow> epoch (state T2) = m)"
      and "case max_updates (config T2) of None \<Rightarrow> False | Some m \<Rightarrow> updates (state T2) = m"
      by (simp_all add: budget_exhausted_def split: if_splits)
  next
    assume "fit_loop k D B E decoder clock T = Inr (MaxSamplesReached, T2)"
    from budget [OF this]
    show "\<not> (case max_epochs (config T2) of None \<Rightarrow> False | Some m \<Rightarrow> epoch (state T2) = m)"
      and "\<not> (case max_updates (config T2) of None \<Rightarrow> False | Some m \<Rightarrow> updates (state T2) = m)"
      and "case max_samples (config T2) of None \<Rightarrow> False | Some m \<Rightarrow> samples (state T2) \<ge> m"
      by (simp_all add: budget_exhausted_def split: if_splits)
  qed
qed

theorem stop_conditions_witness:
  "map_sum id (\<lambda>p. (fst p, ledger_summary (snd p)))
      (fit_loop 20 ex_externals ex_broadcasts ex_collaborators False real_of_int
         ((ex_budgeted (Some 1) (Some 4) (Some 35)) \<lparr> state := ex_fresh \<rparr>))
     = Inr (MaxEpochsReached, 4, 4, 40, 2, 2, False, [PInf, Fin 10, Fin 9])
   \<and> map_sum id (\<lambda>p. (fst p, ledger_summary (snd p)))
      (fit_loop 20 ex_externals ex_broadcasts ex_collaborators False real_of_int
         ((ex_budgeted None (Some 3) (Some 30)) \<lparr> state := ex_fresh \<rparr>))
     = Inr (MaxUpdatesReached, 3, 3, 30, 1, 1, False, [PInf, Fin 10])
   \<and> map_sum id (\<lambda>p. (fst p, ledger_summary (snd p)))
      (fit_loop 20 ex_externals ex_broadcasts ex_collaborators False real_of_int
         ((ex_budgeted None None (Some 25)) \<lparr> state := ex_fresh \<rparr>))
     = Inr (MaxSamplesReached, 3, 3, 30, 1, 1, False, [PInf, Fin 10])
   \<and> map_option (map_sum id ledger_summary)
      (fit 20 ex_externals ex_broadcasts ex_collaborators False 0 real_of_int
         (ex_budgeted None (Some 3) (Some 30)))
     = Some (Inr (3, 3, 30, 1, 1, False, [PInf, Fin 10]))"
proof -
  let ?loop = "fit_loop 20 ex_externals ex_broadcasts ex_collaborators False real_of_int"
  let ?obs = "map_sum id (\<lambda>p. (fst p, budget_summary (snd p), ledger_summary (snd p)))"
  let ?e = "(ex_budgeted (Some 1) (Some 4) (Some 35)) \<lparr> state := ex_fresh \<rparr>"
  let ?u = "(ex_budgeted None (Some 3) (Some 30)) \<lparr> state := ex_fresh \<rparr>"
  let ?s = "(ex_budgeted None None (Some 25)) \<lparr> state := ex_fresh \<rparr>"
  let ?re = "fit_loop 4 ex_externals ex_broadcasts ex_collaborators False real_of_int ?e"
  let ?ru = "fit_loop 3 ex_externals ex_broadcasts ex_collaborators False real_of_int ?u"
  let ?rs = "fit_loop 3 ex_externals ex_broadcasts ex_collaborators False real_of_int ?s"
  have four: "(4::nat) + Suc 15 = 20" and three: "(3::nat) + Suc 16 = 20" by simp_all
  have "?obs ?re = Inr (Running, ((Some 1, 1), (Some 4, 4), (Some 35, 40)),
                        4, 4, 40, 2, 2, False, [PInf, Fin 10, Fin 9])"
    by code_simp
  then have e: "?re = Inr (Running, snd (projr ?re))"
    "budget_summary (snd (projr ?re)) = ((Some 1, 1), (Some 4, 4), (Some 35, 40))"
    "ledger_summary (snd (projr ?re)) = (4, 4, 40, 2, 2, False, [PInf, Fin 10, Fin 9])"
    by (cases ?re; auto)+
  have "?obs ?ru = Inr (Running, ((None, 0), (Some 3, 3), (Some 30, 30)),
                        3, 3, 30, 1, 1, False, [PInf, Fin 10])"
    by code_simp
  then have u: "?ru = Inr (Running, snd (projr ?ru))"
    "budget_summary (snd (projr ?ru)) = ((None, 0), (Some 3, 3), (Some 30, 30))"
    "ledger_summary (snd (projr ?ru)) = (3, 3, 30, 1, 1, False, [PInf, Fin 10])"
    by (cases ?ru; auto)+
  have "?obs ?rs = Inr (Running, ((None, 0), (None, 3), (Some 25, 30)),
                        3, 3, 30, 1, 1, False, [PInf, Fin 10])"
    by code_simp
  then have s: "?rs = Inr (Running, snd (projr ?rs))"
    "budget_summary (snd (projr ?rs)) = ((None, 0), (None, 3), (Some 25, 30))"
    "ledger_summary (snd (projr ?rs)) = (3, 3, 30, 1, 1, False, [PInf, Fin 10])"
    by (cases ?rs; auto)+
  have p: "fit_prepare ex_externals ex_collaborators False 0 (ex_budgeted None (Some 3) (Some 30))
             = Inr ?u"
    by (simp add: fit_prepare_def TrainState_init_def ex_defs)
  from stop_conditions [OF e(1), where fuel = 15] e(2,3)
  have one: "?loop ?e = Inr (MaxEpochsReached, snd (projr ?re))"
    unfolding four by (simp add: budget_summary_def)
  from stop_conditions [OF u(1), where fuel = 16 and now = 0
         and ?T0.0 = "ex_budgeted None (Some 3) (Some 30)"] u(2,3) p
  have two: "?loop ?u = Inr (MaxUpdatesReached, snd (projr ?ru))"
    and four': "fit 20 ex_externals ex_broadcasts ex_collaborators False 0 real_of_int
            (ex_budgeted None (Some 3) (Some 30))
          = Some (Inr ((snd (projr ?ru))\<lparr> world :=
               effect ex_collaborators (Cleanup (checkpoint (state (snd (projr ?ru))))
                  (best_checkpoint (state (snd (projr ?ru))))) (world (snd (projr ?ru))) \<rparr>))"
    unfolding three by (simp_all add: budget_summary_def)
  from stop_conditions [OF s(1), where fuel = 16] s(2,3)
  have three': "?loop ?s = Inr (MaxSamplesReached, snd (projr ?rs))"
    unfolding three by (simp add: budget_summary_def)
  have l: "ledger_summary (T\<lparr> world := w \<rparr>) = ledger_summary T" for T :: "(nat \<times> nat) trainer" and w
    by (simp add: ledger_summary_def)
  show ?thesis
    unfolding one two three' four' using e(3) u(3) s(3) by (simp add: l)
qed

section \<open>Runs without a perplexity metric\<close>

lemma checkpoint_status_diverged:
  "diverged (state T) \<Longrightarrow>
     checkpoint_status T = ConvergedOrDiverged \<or> checkpoint_status T = MaxSecondsReached"
  by (simp add: checkpoint_status_def)

lemma checkpoint_decisions_diverged:
  assumes "checkpoint_decisions D vm T = Inr (b, T1)"
    and "\<forall>m\<in>set vm. name m \<noteq> PERPLEXITY D"
  shows "diverged (state T1)" and "checkpoint (state T1) = checkpoint (state T)"
proof -
  from assms(1) obtain s2 conv where
    i: "determine_improvement D (config T) vm (state T) = Inr (b, s2)"
    and t: "T1 = T\<lparr> state := s2\<lparr> converged := conv,
                  diverged := determine_divergence D (vocab_target_size T) vm \<rparr> \<rparr>"
    by (rule checkpoint_decisions_Inr)
  from t assms(2) show "diverged (state T1)"
    by (simp add: determine_divergence_def last_perplexity_absent)
  from t improvement_checkpoints(1) [OF i] show "checkpoint (state T1) = checkpoint (state T)"
    by simp
qed

lemma checkpoint_block_diverged:
  assumes "checkpoint_block D B E decoder clock T = Inr (st, T')"
    and "\<forall>c w vm w'. evaluate E decoder c w = Inr (vm, w') \<longrightarrow> (\<forall>m\<in>set vm. name m \<noteq> PERPLEXITY D)"
  shows "diverged (state T') \<and> (st = ConvergedOrDiverged \<or> st = MaxSecondsReached)
       \<and> checkpoint (state T') = checkpoint (state T) + 1"
proof -
  let ?D = "at_checkpoint D B (checkpoint (state T) + 1)"
  from assms(1) obtain vm w b T1 where
    e: "evaluate E decoder (checkpoint (state T) + 1)
          (effect E (SaveParams (checkpoint (state T) + 1) (best_checkpoint (state T))) (world T))
        = Inr (vm, w)"
    and d: "checkpoint_decisions ?D vm ((advance_checkpoint E T)\<lparr> world := w \<rparr>) = Inr (b, T1)"
    and p: "T' = persist E clock b vm T1" and s: "st = checkpoint_status T'"
    by (rule checkpoint_block_Inr)
  from assms(2) e have "\<forall>m\<in>set vm. name m \<noteq> PERPLEXITY ?D" by (simp del: split_paired_All) blast
  from checkpoint_decisions_diverged [OF d this]
  have "diverged (state T1)" "checkpoint (state T1) = checkpoint (state T) + 1"
    by (simp_all add: advance_checkpoint_def)
  with persist_frame [of E clock b vm T1] p
  have "diverged (state T')" "checkpoint (state T') = checkpoint (state T) + 1" by simp_all
  with checkpoint_status_diverged [of T'] s show ?thesis by simp
qed

lemma fit_loop_first_checkpoint:
  assumes "fit_loop n D B E decoder clock T = Inr (st, T')"
    and "\<forall>c w vm w'. evaluate E decoder c w = Inr (vm, w') \<longrightarrow> (\<forall>m\<in>set vm. name m \<noteq> PERPLEXITY D)"
  shows "(checkpoint (state T') = checkpoint (state T)
            \<and> st \<noteq> ConvergedOrDiverged \<and> st \<noteq> MaxSecondsReached)
       \<or> (checkpoint (state T') = checkpoint (state T) + 1 \<and> diverged (state T')
            \<and> (st = ConvergedOrDiverged \<or> st = MaxSecondsReached))"
  using assms(1)
proof (induction n arbitrary: T)
  case 0
  then show ?case by auto
next
  case (Suc n)
  have same: "checkpoint (state (end_of_epoch E T1)) = checkpoint (state T)"
    if "step E (fst (next_batch E (world T))) (T\<lparr> world := snd (next_batch E (world T)) \<rparr>)
          = (T1, None)" for T1
    using step_frame [OF that] end_of_epoch_frame [of E T1] by simp
  from Suc.prems show ?case
  proof (cases rule: fit_loop_Suc_cases)
    case stop
    with budget_exhausted_status [of T st] show ?thesis by simp
  next
    case (last T1)
    from checkpoint_block_diverged [OF last(3) assms(2)] same [OF last(2)] show ?thesis by simp
  next
    case (plain T1)
    from Suc.IH [OF plain(3)] same [OF plain(2)] show ?thesis by simp
  next
    case (more T1 T3)
    from checkpoint_block_diverged [OF more(3) assms(2)] show ?thesis by simp
  qed
qed

text \<open>
  C10. When no validation metric is named perplexity, \<open>_determine_divergence\<close>
  returns True: the value it tests is the default NaN, which is not finite. So the
  checkpoint at which \<open>_evaluate\<close> reports no such metric, if its decisions all
  return, sets \<open>diverged\<close> in the ledger and ends the loop of \<open>fit\<close> (for the
  budget of seconds if that is exhausted, as diverged otherwise); and in a run in
  which \<open>_evaluate\<close> never reports such a metric no checkpoint follows the first:
  the loop is either before the first checkpoint, or has ended at it with
  \<open>diverged\<close> set, and so has the ledger that \<open>fit\<close> returns from a fresh start.
\<close>

theorem divergence_without_perplexity:
  "((\<forall>m\<in>set val_metrics. name m \<noteq> PERPLEXITY D) \<longrightarrow>
       determine_divergence D V val_metrics = True)
   \<and> ((\<forall>m\<in>set val_metrics. name m \<noteq> PERPLEXITY D)
       \<and> checkpoint_decisions D val_metrics T1 = Inr (b, T2) \<longrightarrow>
         diverged (state T2)
         \<and> checkpoint_status (persist E clock b val_metrics T2) \<noteq> Running)
   \<and> ((\<forall>c w vm w'. evaluate E decoder c w = Inr (vm, w')
                     \<longrightarrow> (\<forall>m\<in>set vm. name m \<noteq> PERPLEXITY D)) \<longrightarrow>
         (checkpoint_block D B E decoder clock T = Inr (st, T') \<longrightarrow>
            diverged (state T') \<and> (st = ConvergedOrDiverged \<or> st = MaxSecondsReached))
       \<and> (fit_loop n D B E decoder clock T = Inr (st, T') \<longrightarrow>
            (checkpoint (state T') = checkpoint (state T)
               \<and> st \<noteq> ConvergedOrDiverged \<and> st \<noteq> MaxSecondsReached)
          \<or> (checkpoint (state T') = checkpoint (state T) + 1 \<and> diverged (state T')
               \<and> (st = ConvergedOrDiverged \<or> st = MaxSecondsReached)))
       \<and> (training_state Ti = None \<and> fit n D B E decoder now clock Ti = Some (Inr Tr) \<longrightarrow>
            checkpoint (state Tr) = 0
          \<or> (checkpoint (state Tr) = 1 \<and> diverged (state Tr))))"
proof (intro conjI impI)
  assume "\<forall>m\<in>set val_metrics. name m \<noteq> PERPLEXITY D"
  then show "determine_divergence D V val_metrics = True"
    by (simp add: determine_divergence_def last_perplexity_absent)
next
  assume a: "(\<forall>m\<in>set val_metrics. name m \<noteq> PERPLEXITY D)
       \<and> checkpoint_decisions D val_metrics T1 = Inr (b, T2)"
  then have d: "diverged (state T2)" using checkpoint_decisions_diverged(1) by blast
  then show "diverged (state T2)" .
  from d persist_frame [of E clock b val_metrics T2]
  have "diverged (state (persist E clock b val_metrics T2))" by simp
  from checkpoint_status_diverged [OF this]
  show "checkpoint_status (persist E clock b val_metrics T2) \<noteq> Running" by auto
next
  assume h: "\<forall>c w vm w'. evaluate E decoder c w = Inr (vm, w')
                     \<longrightarrow> (\<forall>m\<in>set vm. name m \<noteq> PERPLEXITY D)"
  {
    assume "checkpoint_block D B E decoder clock T = Inr (st, T')"
    from checkpoint_block_diverged [OF this h]
    show "diverged (state T')" and "st = ConvergedOrDiverged \<or> st = MaxSecondsReached"
      by simp_all
  }
  {
    assume "fit_loop n D B E decoder clock T = Inr (st, T')"
    then show "(checkpoint (state T') = checkpoint (state T)
               \<and> st \<noteq> ConvergedOrDiverged \<and> st \<noteq> MaxSecondsReached)
          \<or> (checkpoint (state T') = checkpoint (state T) + 1 \<and> diverged (state T')
               \<and> (st = ConvergedOrDiverged \<or> st = MaxSecondsReached))"
      using h by (rule fit_loop_first_checkpoint)
  }
  {
    assume a: "training_state Ti = None \<and> fit n D B E decoder now clock Ti = Some (Inr Tr)"
    then obtain Tp st' T'' where p: "fit_prepare D E decoder now Ti = Inr Tp"
      and l: "fit_loop n D B E decoder clock Tp = Inr (st', T'')" and e: "state Tr = state T''"
      using fit_Some_Inr by blast
    from fit_prepare_fresh(4) [OF _ p] a have "checkpoint (state Tp) = 0" by simp
    with fit_loop_first_checkpoint [OF l h] e
    show "checkpoint (state Tr) = 0 \<or> (checkpoint (state Tr) = 1 \<and> diverged (state Tr))"
      by auto
  }
qed

theorem divergence_without_perplexity_witness:
  "determine_divergence ex_externals 100 [ex_accuracy] = True
   \<and> map_option (map_sum id (\<lambda>T. (batches (state T), checkpoint (state T))))
       (fit 20 ex_externals ex_broadcasts ex_no_perplexity True 0 real_of_int ex_bleu_trainer)
     = Some (Inr (2, 1))
   \<and> diverged (state (projr (the
       (fit 20 ex_externals ex_broadcasts ex_no_perplexity True 0 real_of_int ex_bleu_trainer))))"
proof -
  let ?f = "fit 20 ex_externals ex_broadcasts ex_no_perplexity True 0 real_of_int ex_bleu_trainer"
  note th = divergence_without_perplexity [where D = ex_externals and val_metrics = "[ex_accuracy]"
    and V = 100 and B = ex_broadcasts and E = ex_no_perplexity and decoder = True and n = 20
    and now = 0 and clock = real_of_int and Ti = ex_bleu_trainer and Tr = "projr (the ?f)"]
  have a: "\<forall>m\<in>set [ex_accuracy]. name m \<noteq> PERPLEXITY ex_externals"
    by (simp add: ex_defs)
  have h: "\<forall>c w vm w'. evaluate ex_no_perplexity True c w = Inr (vm, w')
             \<longrightarrow> (\<forall>m\<in>set vm. name m \<noteq> PERPLEXITY ex_externals)"
    by (auto simp: evaluate_def ex_defs py_in_def)
  have c: "map_option (map_sum id (\<lambda>T. (batches (state T), checkpoint (state T)))) ?f
             = Some (Inr (2, 1))"
    by code_simp
  then have f: "?f = Some (Inr (projr (the ?f)))" and k: "checkpoint (state (projr (the ?f))) = 1"
    by (cases ?f; cases "the ?f"; auto)+
  have t: "training_state ex_bleu_trainer = None" by (simp add: ex_defs)
  from th [THEN conjunct1, THEN mp, OF a]
  have one: "determine_divergence ex_externals 100 [ex_accuracy] = True" .
  from th [THEN conjunct2, THEN conjunct2, THEN mp, OF h, THEN conjunct2, THEN conjunct2,
           THEN mp, OF conjI [OF t f]] k
  have two: "diverged (state (projr (the ?f)))" by simp
  from one c two show ?thesis by (intro conjI)
qed

section \<open>The window of best values\<close>

lemma improvement_history_max:
  assumes "determine_improvement D cfg ms s = Inr (b, s')"
    and "max_num_checkpoint_not_improved cfg = Some m"
  shows "int (length (best_metric_history s')) \<le> max (int (length (best_metric_history s))) (m + 1)"
  using improvement_history [OF assms(1)] assms(2) by (auto simp: Let_def)

lemma fit_loop_history_max:
  assumes "fit_loop n D B E decoder clock T = Inr (st, T')"
    and "max_num_checkpoint_not_improved (config T) = Some m"
  shows "int (length (best_metric_history (state T')))
           \<le> max (int (length (best_metric_history (state T)))) (m + 1)"
proof -
  define L where "L = max (int (length (best_metric_history (state T)))) (m + 1)"
  have "int (length (best_metric_history (state T'))) \<le> L \<and> config T' = config T"
  proof (rule fit_loop_invariant [OF assms(1),
           where P = "\<lambda>s. int (length (best_metric_history s)) \<le> L"])
    show "int (length (best_metric_history (state T))) \<le> L" by (simp add: L_def)
  next
    fix s s' :: TrainState
    assume "int (length (best_metric_history s)) \<le> L"
      "best_metric_history s' = best_metric_history s"
    then show "int (length (best_metric_history s')) \<le> L" by simp
  next
    fix s vm b s'
    assume p: "int (length (best_metric_history s)) \<le> L"
      and i: "determine_improvement (at_checkpoint D B (checkpoint s + 1)) (config T) vm
                (s \<lparr> checkpoint := checkpoint s + 1 \<rparr>) = Inr (b, s')"
    from improvement_history_max [OF i assms(2)] p
    show "int (length (best_metric_history s')) \<le> L" by (simp add: L_def)
  qed
  then show ?thesis by (simp add: L_def)
qed

lemma fit_loop_history_bound:
  assumes "fit_loop n D B E decoder clock T = Inr (st, T')"
    and "max_num_checkpoint_not_improved (config T) = Some m"
    and "int (length (best_metric_history (state T))) \<le> m + 1"
  shows "int (length (best_metric_history (state T'))) \<le> m + 1"
  using fit_loop_history_max [OF assms(1,2)] assms(3) by simp

text \<open>
  C6, as the code has it. A call of \<open>_determine_improvement\<close> that returns appends
  one entry, the best value after the call, to \<open>best_metric_history\<close> and drops the
  oldest entry, one at most, when the window then has more than
  \<open>max_num_checkpoint_not_improved + 1\<close> entries. So the window never grows beyond
  the larger of its length before the call and that bound, in a call and through
  every iteration of the loop of \<open>fit\<close>, whatever the number of checkpoints and on
  every worker; a window within the bound stays within it, and the ledger that
  \<open>fit\<close> returns from a fresh start has a window within the bound (the patience
  being configured and not negative).
\<close>

theorem history_window:
  "(determine_improvement D cfg ms s = Inr (b, s') \<longrightarrow>
      best_metric_history s' =
        (let h = best_metric_history s @ [best_metric s']
         in case max_num_checkpoint_not_improved cfg of
              None \<Rightarrow> h
            | Some k \<Rightarrow> if int (length h) > k + 1 then tl h else h))
   \<and> (determine_improvement D cfg ms s = Inr (b, s')
      \<and> max_num_checkpoint_not_improved cfg = Some k \<longrightarrow>
        int (length (best_metric_history s')) \<le> max (int (length (best_metric_history s))) (k + 1))
   \<and> (max_num_checkpoint_not_improved (config T) = Some m
      \<and> fit_loop n D B E decoder clock T = Inr (st, T') \<longrightarrow>
        int (length (best_metric_history (state T')))
          \<le> max (int (length (best_metric_history (state T)))) (m + 1))
   \<and> (max_num_checkpoint_not_improved (config T) = Some m
      \<and> int (length (best_metric_history (state T))) \<le> m + 1
      \<and> fit_loop n D B E decoder clock T = Inr (st, T') \<longrightarrow>
        int (length (best_metric_history (state T'))) \<le> m + 1)
   \<and> (max_num_checkpoint_not_improved (config Ti) = Some m \<and> 0 \<le> m
      \<and> training_state Ti = None
      \<and> fit n D B E decoder now clock Ti = Some (Inr Tr) \<longrightarrow>
        int (length (best_metric_history (state Tr))) \<le> m + 1)"
proof (intro conjI impI)
  assume "determine_improvement D cfg ms s = Inr (b, s')"
  then show "best_metric_history s' =
        (let h = best_metric_history s @ [best_metric s']
         in case max_num_checkpoint_not_improved cfg of
              None \<Rightarrow> h
            | Some k \<Rightarrow> if int (length h) > k + 1 then tl h else h)"
    by (rule improvement_history)
next
  assume "determine_improvement D cfg ms s = Inr (b, s')
      \<and> max_num_checkpoint_not_improved cfg = Some k"
  then show "int (length (best_metric_history s'))
               \<le> max (int (length (best_metric_history s))) (k + 1)"
    using improvement_history_max by blast
next
  assume "max_num_checkpoint_not_improved (config T) = Some m
      \<and> fit_loop n D B E decoder clock T = Inr (st, T')"
  then show "int (length (best_metric_history (state T')))
          \<le> max (int (length (best_metric_history (state T)))) (m + 1)"
    using fit_loop_history_max by blast
next
  assume "max_num_checkpoint_not_improved (config T) = Some m
      \<and> int (length (best_metric_history (state T))) \<le> m + 1
      \<and> fit_loop n D B E decoder clock T = Inr (st, T')"
  then show "int (length (best_metric_history (state T'))) \<le> m + 1"
    using fit_loop_history_bound by blast
next
  assume a: "max_num_checkpoint_not_improved (config Ti) = Some m \<and> 0 \<le> m
      \<and> training_state Ti = None
      \<and> fit n D B E decoder now clock Ti = Some (Inr Tr)"
  then obtain Tp st' T'' where p: "fit_prepare D E decoder now Ti = Inr Tp"
    and l: "fit_loop n D B E decoder clock Tp = Inr (st', T'')" and e: "state Tr = state T''"
    using fit_Some_Inr by blast
  from fit_prepare_fresh [OF _ p] a
  have "int (length (best_metric_history (state Tp))) \<le> m + 1"
    and "max_num_checkpoint_not_improved (config Tp) = Some m" by auto
  from fit_loop_history_bound [OF l this(2,1)] e
  show "int (length (best_metric_history (state Tr))) \<le> m + 1" by simp
qed

theorem history_window_witness:
  "determine_improvement ex_externals ex_config [ppl 9] ex_state
     = Inr (False, ex_state \<lparr> num_not_improved := 3 \<rparr>)
   \<and> best_metric_history (ex_state \<lparr> num_not_improved := 3 \<rparr>) = [Fin 9, Fin 9, Fin 9]
   \<and> int (length (best_metric_history (state (snd (projr
        (fit_loop 7 ex_secondary ex_broadcasts ex_collaborators False real_of_int
           (ex_trainer \<lparr> state := ex_fresh \<rparr>))))))) \<le> 3
   \<and> int (length (best_metric_history (state (projr (the
        (fit 8 ex_externals ex_broadcasts ex_collaborators False 0 real_of_int ex_trainer)))))) \<le> 3"
proof -
  let ?r = "fit_loop 7 ex_secondary ex_broadcasts ex_collaborators False real_of_int
              (ex_trainer \<lparr> state := ex_fresh \<rparr>)"
  let ?f = "fit 8 ex_externals ex_broadcasts ex_collaborators False 0 real_of_int ex_trainer"
  have d: "determine_improvement ex_externals ex_config [ppl 9] ex_state
             = Inr (False, ex_state \<lparr> num_not_improved := 3 \<rparr>)"
    by (simp add: determine_improvement_def ex_defs spec_metric_value_is_better_def Let_def)
  have "map_sum id fst ?r = Inr Running" by code_simp
  then have r: "?r = Inr (fst (projr ?r), snd (projr ?r))" by (cases ?r) auto
  have "map_option (map_sum id ledger_summary) ?f
          = Some (Inr (8, 8, 80, 4, 2, True, [Fin 9, Fin 9, Fin 9]))" by code_simp
  then have f: "?f = Some (Inr (projr (the ?f)))" by (cases ?f; cases "the ?f") auto
  have c: "max_num_checkpoint_not_improved (config (ex_trainer \<lparr> state := ex_fresh \<rparr>)) = Some 2"
    "int (length (best_metric_history (state (ex_trainer \<lparr> state := ex_fresh \<rparr>)))) \<le> 2 + 1"
    "max_num_checkpoint_not_improved (config ex_trainer) = Some 2" "training_state ex_trainer = None"
    by (simp_all add: ex_defs)
  from history_window [where D = ex_externals and cfg = ex_config and ms = "[ppl 9]"
         and s = ex_state and b = False and s' = "ex_state \<lparr> num_not_improved := 3 \<rparr>"
         and m = 2 and n = 8 and B = ex_broadcasts
         and E = ex_collaborators and decoder = False and clock = real_of_int
         and Ti = ex_trainer and now = 0 and Tr = "projr (the ?f)"]
       history_window [where D = ex_secondary and B = ex_broadcasts
         and T = "ex_trainer \<lparr> state := ex_fresh \<rparr>" and m = 2 and n = 7
         and E = ex_collaborators and decoder = False and clock = real_of_int
         and st = "fst (projr ?r)" and T' = "snd (projr ?r)"]
       d r f c
  show ?thesis by (simp add: ex_state_def)
qed

text \<open>
  The claim as stated fails for a run that resumes with a lowered patience: the
  ledger saved under a patience of 2 holds a window of 3 entries; resumed with a
  patience of 1, each call appends one entry and drops one, so the window keeps
  3 entries, more than \<open>max_num_checkpoint_not_improved + 1 = 2\<close>, in the call and in
  the ledger that \<open>fit\<close> returns.
\<close>

theorem resumed_window_counterexample:
  "training_state ex_impatient = Some ex_state
   \<and> max_num_checkpoint_not_improved (config ex_impatient) = Some 1
   \<and> improvement_outcome (determine_improvement ex_externals (config ex_impatient) [ppl 10]
        (ex_state \<lparr> checkpoint := 5 \<rparr>))
     = Inr (False, Fin 9, 2, [Fin 9, Fin 9, Fin 9])
   \<and> map_option (map_sum id ledger_summary)
       (fit 20 ex_externals ex_broadcasts ex_collaborators False 7 real_of_int ex_impatient)
     = Some (Inr (10, 10, 100, 5, 2, True, [Fin 9, Fin 9, Fin 9]))
   \<and> \<not> int (length (best_metric_history (state (projr (the
        (fit 20 ex_externals ex_broadcasts ex_collaborators False 7 real_of_int ex_impatient))))))
       \<le> 1 + 1"
proof -
  let ?f = "fit 20 ex_externals ex_broadcasts ex_collaborators False 7 real_of_int ex_impatient"
  have c: "map_option (map_sum id ledger_summary) ?f
          = Some (Inr (10, 10, 100, 5, 2, True, [Fin 9, Fin 9, Fin 9]))" by code_simp
  then have "best_metric_history (state (projr (the ?f))) = [Fin 9, Fin 9, Fin 9]"
    by (cases ?f; cases "the ?f") (auto simp: ledger_summary_def)
  then have l: "\<not> int (length (best_metric_history (state (projr (the ?f))))) \<le> 1 + 1" by simp
  have i: "improvement_outcome (determine_improvement ex_externals (config ex_impatient) [ppl 10]
        (ex_state \<lparr> checkpoint := 5 \<rparr>))
     = Inr (False, Fin 9, 2, [Fin 9, Fin 9, Fin 9])"
    by (simp add: improvement_outcome_def determine_improvement_def ex_defs
          spec_metric_value_is_better_def Let_def)
  have t: "training_state ex_impatient = Some ex_state"
    "max_num_checkpoint_not_improved (config ex_impatient) = Some 1"
    by (simp_all add: ex_defs)
  from t i c l show ?thesis by (intro conjI)
qed

section \<open>The best value\<close>

lemma fit_loop_best_checkpoint:
  assumes "fit_loop n D B E decoder clock T = Inr (st, T')"
    and "best_checkpoint (state T) \<le> checkpoint (state T)"
  shows "best_checkpoint (state T') \<le> checkpoint (state T')"
proof -
  have "best_checkpoint (state T') \<le> checkpoint (state T') \<and> config T' = config T"
  proof (rule fit_loop_invariant [OF assms(1), where P = "\<lambda>s. best_checkpoint s \<le> checkpoint s"])
    show "best_checkpoint (state T) \<le> checkpoint (state T)" by (rule assms(2))
  next
    fix s s' :: TrainState
    assume "best_checkpoint s \<le> checkpoint s" "checkpoint s' = checkpoint s"
      "best_checkpoint s' = best_checkpoint s"
    then show "best_checkpoint s' \<le> checkpoint s'" by simp
  next
    fix s vm b s'
    assume p: "best_checkpoint s \<le> checkpoint s"
      and i: "determine_improvement (at_checkpoint D B (checkpoint s + 1)) (config T) vm
                (s \<lparr> checkpoint := checkpoint s + 1 \<rparr>) = Inr (b, s')"
    from improvement_checkpoints(2) [OF i] p show "best_checkpoint s' \<le> checkpoint s'" by simp
  qed
  then show ?thesis by simp
qed

lemma fit_loop_monotone:
  assumes "fit_loop n D B E decoder clock T = Inr (st, T')"
    and "\<not> using_horovod D \<or> hvd_rank D = 0"
  shows "(\<lambda>old new. metric_value_is_better D new old (early_stopping_metric (config T)))\<^sup>*\<^sup>*
           (best_metric (state T)) (best_metric (state T'))"
proof -
  define R where "R = (\<lambda>old new. metric_value_is_better D new old (early_stopping_metric (config T)))"
  have "R\<^sup>*\<^sup>* (best_metric (state T)) (best_metric (state T')) \<and> config T' = config T"
  proof (rule fit_loop_invariant [OF assms(1),
           where P = "\<lambda>s. R\<^sup>*\<^sup>* (best_metric (state T)) (best_metric s)"])
    show "R\<^sup>*\<^sup>* (best_metric (state T)) (best_metric (state T))" by simp
  next
    fix s s' :: TrainState
    assume "R\<^sup>*\<^sup>* (best_metric (state T)) (best_metric s)" "best_metric s' = best_metric s"
    then show "R\<^sup>*\<^sup>* (best_metric (state T)) (best_metric s')" by simp
  next
    fix s vm b s'
    assume p: "R\<^sup>*\<^sup>* (best_metric (state T)) (best_metric s)"
      and i: "determine_improvement (at_checkpoint D B (checkpoint s + 1)) (config T) vm
                (s \<lparr> checkpoint := checkpoint s + 1 \<rparr>) = Inr (b, s')"
    from assms(2) have "\<not> using_horovod (at_checkpoint D B (checkpoint s + 1))
                        \<or> hvd_rank (at_checkpoint D B (checkpoint s + 1)) = 0" by simp
    from improvement_monotone [OF i this]
    have "R\<^sup>*\<^sup>* (best_metric s) (best_metric s')" by (simp add: R_def)
    with p show "R\<^sup>*\<^sup>* (best_metric (state T)) (best_metric s')" by (rule rtranclp_trans)
  qed
  then show ?thesis by (simp add: R_def)
qed

text \<open>What a worker that is not the root does with the decision of rank 0.\<close>

lemma improvement_loop_skip:
  assumes "\<forall>x\<in>set pre. name x \<noteq> early_stopping_metric cfg"
  shows "improvement_loop D cfg i (pre @ ys) (v, b, s) = improvement_loop D cfg i ys (v, b, s)"
  using assms by (induction pre) simp_all

lemma improvement_loop_secondary:
  assumes "using_horovod D" and "hvd_rank D \<noteq> 0" and "name m = early_stopping_metric cfg"
    and "\<forall>x\<in>set pre. name x \<noteq> early_stopping_metric cfg"
    and "\<forall>x\<in>set rest. name x \<noteq> early_stopping_metric cfg"
  shows "improvement_loop D cfg 0 (pre @ m # rest) (None, False, s)
           = (Some (get m), bcast_bool D 0 False,
              if bcast_bool D 0 False
              then s\<lparr> best_metric := get m, best_checkpoint := checkpoint s, num_not_improved := 0 \<rparr>
              else s)"
  using assms
  by (simp add: improvement_loop_skip improvement_loop_absent comm_bcast_bool_def Let_def)

lemma improvement_loop_own_comparison:
  assumes "using_horovod D" and "hvd_rank D \<noteq> 0"
  shows "improvement_loop (D\<lparr> metric_value_is_better := f \<rparr>) cfg i ms acc
           = improvement_loop D cfg i ms acc"
proof (induction ms arbitrary: i acc)
  case Nil
  show ?case by simp
next
  case (Cons m ms)
  obtain v b s where "acc = (v, b, s)" by (cases acc)
  with assms Cons.IH show ?case by (simp add: Let_def comm_bcast_bool_def)
qed

lemma improvement_secondary:
  assumes "determine_improvement D cfg (pre @ m # rest) s = Inr (b, s')"
    and "using_horovod D" and "hvd_rank D \<noteq> 0" and "name m = early_stopping_metric cfg"
    and "\<forall>x\<in>set pre. name x \<noteq> early_stopping_metric cfg"
    and "\<forall>x\<in>set rest. name x \<noteq> early_stopping_metric cfg"
  shows "b = bcast_bool D 0 False
       \<and> (b \<longrightarrow> best_metric s' = get m \<and> best_checkpoint s' = checkpoint s)
       \<and> (\<not> b \<longrightarrow> best_metric s' = best_metric s \<and> best_checkpoint s' = best_checkpoint s)"
proof -
  from assms(1) obtain v s1 where
    L: "improvement_loop D cfg 0 (pre @ m # rest) (None, False, s) = (Some v, b, s1)"
    and B: "best_metric s' = best_metric s1" "best_checkpoint s' = best_checkpoint s1"
    by (rule determine_improvement_Inr)
  from L improvement_loop_secondary [OF assms(2-6), of s] B show ?thesis
    by (auto split: if_splits)
qed

lemma fit_prepare_best_checkpoint:
  assumes "fit_prepare D E decoder now Ti = Inr Tp"
    and "case training_state Ti of None \<Rightarrow> True | Some blob \<Rightarrow> best_checkpoint blob \<le> checkpoint blob"
  shows "best_checkpoint (state Tp) \<le> checkpoint (state Tp)"
  using assms
  by (auto simp: fit_prepare_def TrainState_init_def TrainState_load_def
           split: if_splits option.splits sum.splits)

text \<open>
  C7, as the code has it. A call of \<open>_determine_improvement\<close> that returns leaves
  the checkpoint index as it is and keeps \<open>best_checkpoint <= checkpoint\<close>. On the
  worker that makes the authoritative check (no Horovod, or rank 0) the best value
  after the call is the best value before it or is reached from it by improvements,
  and when no metric of the early-stopping name improves on the best value, the call
  reports no improvement and leaves \<open>best_metric\<close> and \<open>best_checkpoint\<close> unchanged.
  On every other Horovod worker the call does not consult
  \<open>utils.metric_value_is_better\<close> (whatever comparison \<open>f\<close> stands in its place, the
  result is the same); with one metric \<open>m\<close> of the early-stopping name its decision
  is the value that rank 0 broadcasts: when that is True the worker records the
  value of \<open>m\<close> as \<open>best_metric\<close> and the current checkpoint as \<open>best_checkpoint\<close>,
  and when it is False both are unchanged. \<open>best_checkpoint <= checkpoint\<close> carries
  over to every run of the loop of \<open>fit\<close> on every worker, and the order of the
  best values to every run on the authoritative worker, whatever the number of
  checkpoints; and the ledger that \<open>fit\<close> returns has
  \<open>best_checkpoint <= checkpoint\<close>, from a fresh start and from a saved ledger that
  has it.
\<close>

theorem best_is_kept:
  "(determine_improvement D cfg ms s = Inr (b, s') \<longrightarrow>
      checkpoint s' = checkpoint s
      \<and> (best_checkpoint s \<le> checkpoint s \<longrightarrow> best_checkpoint s' \<le> checkpoint s')
      \<and> (\<not> using_horovod D \<or> hvd_rank D = 0 \<longrightarrow>
           (\<lambda>old new. metric_value_is_better D new old (early_stopping_metric cfg))\<^sup>*\<^sup>*
              (best_metric s) (best_metric s')
           \<and> ((\<forall>m\<in>set ms. name m = early_stopping_metric cfg \<longrightarrow>
                   \<not> metric_value_is_better D (get m) (best_metric s) (early_stopping_metric cfg))
                \<longrightarrow> \<not> b \<and> best_metric s' = best_metric s
                    \<and> best_checkpoint s' = best_checkpoint s))
      \<and> (using_horovod D \<and> hvd_rank D \<noteq> 0 \<longrightarrow>
           determine_improvement (D\<lparr> metric_value_is_better := f \<rparr>) cfg ms s = Inr (b, s')
           \<and> (ms = pre @ m # rest \<and> name m = early_stopping_metric cfg
              \<and> (\<forall>x\<in>set pre. name x \<noteq> early_stopping_metric cfg)
              \<and> (\<forall>x\<in>set rest. name x \<noteq> early_stopping_metric cfg) \<longrightarrow>
                b = bcast_bool D 0 False
                \<and> (b \<longrightarrow> best_metric s' = get m \<and> best_checkpoint s' = checkpoint s)
                \<and> (\<not> b \<longrightarrow> best_metric s' = best_metric s
                           \<and> best_checkpoint s' = best_checkpoint s))))
   \<and> (fit_loop n D B E decoder clock T = Inr (st, T') \<longrightarrow>
        (best_checkpoint (state T) \<le> checkpoint (state T)
           \<longrightarrow> best_checkpoint (state T') \<le> checkpoint (state T'))
      \<and> (\<not> using_horovod D \<or> hvd_rank D = 0 \<longrightarrow>
           (\<lambda>old new. metric_value_is_better D new old (early_stopping_metric (config T)))\<^sup>*\<^sup>*
              (best_metric (state T)) (best_metric (state T'))))
   \<and> ((case training_state Ti of None \<Rightarrow> True
        | Some blob \<Rightarrow> best_checkpoint blob \<le> checkpoint blob)
      \<and> fit n D B E decoder now clock Ti = Some (Inr Tr) \<longrightarrow>
        best_checkpoint (state Tr) \<le> checkpoint (state Tr))"
proof (intro conjI impI)
  assume i: "determine_improvement D cfg ms s = Inr (b, s')"
  show "checkpoint s' = checkpoint s" by (rule improvement_checkpoints(1) [OF i])
  show "best_checkpoint s' \<le> checkpoint s'" if "best_checkpoint s \<le> checkpoint s"
    by (rule improvement_checkpoints(2) [OF i that])
  {
    assume a: "\<not> using_horovod D \<or> hvd_rank D = 0"
    show "(\<lambda>old new. metric_value_is_better D new old (early_stopping_metric cfg))\<^sup>*\<^sup>*
            (best_metric s) (best_metric s')"
      by (rule improvement_monotone [OF i a])
    assume n: "\<forall>m\<in>set ms. name m = early_stopping_metric cfg \<longrightarrow>
                 \<not> metric_value_is_better D (get m) (best_metric s) (early_stopping_metric cfg)"
    from improvement_unchanged [OF i a n]
    show "\<not> b" and "best_metric s' = best_metric s" and "best_checkpoint s' = best_checkpoint s"
      by simp_all
  }
  {
    assume h: "using_horovod D \<and> hvd_rank D \<noteq> 0"
    then have "improvement_loop (D\<lparr> metric_value_is_better := f \<rparr>) cfg 0 ms (None, False, s)
                 = improvement_loop D cfg 0 ms (None, False, s)"
      by (simp add: improvement_loop_own_comparison)
    with i show "determine_improvement (D\<lparr> metric_value_is_better := f \<rparr>) cfg ms s = Inr (b, s')"
      by (simp add: determine_improvement_def)
    assume m: "ms = pre @ m # rest \<and> name m = early_stopping_metric cfg
              \<and> (\<forall>x\<in>set pre. name x \<noteq> early_stopping_metric cfg)
              \<and> (\<forall>x\<in>set rest. name x \<noteq> early_stopping_metric cfg)"
    with i h have r: "b = bcast_bool D 0 False
       \<and> (b \<longrightarrow> best_metric s' = get m \<and> best_checkpoint s' = checkpoint s)
       \<and> (\<not> b \<longrightarrow> best_metric s' = best_metric s \<and> best_checkpoint s' = best_checkpoint s)"
      using improvement_secondary [of D cfg pre m rest s b s'] by blast
    from r show "b = bcast_bool D 0 False" by simp
    show "best_metric s' = get m" if b using r that by simp
    show "best_checkpoint s' = checkpoint s" if b using r that by simp
    show "best_metric s' = best_metric s" if "\<not> b" using r that by simp
    show "best_checkpoint s' = best_checkpoint s" if "\<not> b" using r that by simp
  }
next
  assume l: "fit_loop n D B E decoder clock T = Inr (st, T')"
  show "best_checkpoint (state T') \<le> checkpoint (state T')"
    if "best_checkpoint (state T) \<le> checkpoint (state T)"
    by (rule fit_loop_best_checkpoint [OF l that])
  show "(\<lambda>old new. metric_value_is_better D new old (early_stopping_metric (config T)))\<^sup>*\<^sup>*
          (best_metric (state T)) (best_metric (state T'))"
    if "\<not> using_horovod D \<or> hvd_rank D = 0"
    by (rule fit_loop_monotone [OF l that])
next
  assume a: "(case training_state Ti of None \<Rightarrow> True
        | Some blob \<Rightarrow> best_checkpoint blob \<le> checkpoint blob)
      \<and> fit n D B E decoder now clock Ti = Some (Inr Tr)"
  then obtain Tp st' T'' where p: "fit_prepare D E decoder now Ti = Inr Tp"
    and l: "fit_loop n D B E decoder clock Tp = Inr (st', T'')" and e: "state Tr = state T''"
    using fit_Some_Inr by blast
  from fit_prepare_best_checkpoint [OF p] a
  have "best_checkpoint (state Tp) \<le> checkpoint (state Tp)" by simp
  from fit_loop_best_checkpoint [OF l this] e
  show "best_checkpoint (state Tr) \<le> checkpoint (state Tr)" by simp
qed

theorem best_is_kept_witness:
  "determine_improvement ex_externals ex_config [ppl 9] ex_state
     = Inr (False, ex_state \<lparr> num_not_improved := 3 \<rparr>)
   \<and> best_metric (ex_state \<lparr> num_not_improved := 3 \<rparr>) = best_metric ex_state
   \<and> best_checkpoint (ex_state \<lparr> num_not_improved := 3 \<rparr>) = best_checkpoint ex_state
   \<and> determine_improvement ex_secondary ex_config [ex_accuracy, ppl (19 / 2)] ex_state
     = Inr (True, ex_state \<lparr> best_metric := Fin (19 / 2), best_checkpoint := 4,
                  num_not_improved := 0, best_metric_history := [Fin 9, Fin 9, Fin (19 / 2)] \<rparr>)
   \<and> determine_improvement (ex_secondary \<lparr> metric_value_is_better := (\<lambda>_ _ _. False) \<rparr>)
        ex_config [ex_accuracy, ppl (19 / 2)] ex_state
     = Inr (True, ex_state \<lparr> best_metric := Fin (19 / 2), best_checkpoint := 4,
                  num_not_improved := 0, best_metric_history := [Fin 9, Fin 9, Fin (19 / 2)] \<rparr>)
   \<and> bcast_bool ex_secondary 0 False
   \<and> best_checkpoint (state (projr (the
        (fit 20 ex_externals ex_broadcasts ex_collaborators False 7 real_of_int ex_impatient))))
       \<le> checkpoint (state (projr (the
        (fit 20 ex_externals ex_broadcasts ex_collaborators False 7 real_of_int ex_impatient))))
   \<and> best_checkpoint (state (snd (projr
        (fit_loop 7 ex_secondary ex_broadcasts ex_collaborators False real_of_int
           (ex_trainer \<lparr> state := ex_fresh \<rparr>)))))
       \<le> checkpoint (state (snd (projr
        (fit_loop 7 ex_secondary ex_broadcasts ex_collaborators False real_of_int
           (ex_trainer \<lparr> state := ex_fresh \<rparr>)))))
   \<and> (\<lambda>old new. metric_value_is_better ex_externals new old
                    (early_stopping_metric (config (ex_trainer \<lparr> state := ex_fresh \<rparr>))))\<^sup>*\<^sup>*
        (best_metric (state (ex_trainer \<lparr> state := ex_fresh \<rparr>)))
        (best_metric (state (snd (projr
          (fit_loop 7 ex_externals ex_broadcasts ex_collaborators False real_of_int
             (ex_trainer \<lparr> state := ex_fresh \<rparr>))))))"
proof -
  let ?T = "ex_trainer \<lparr> state := ex_fresh \<rparr>"
  let ?r = "fit_loop 7 ex_externals ex_broadcasts ex_collaborators False real_of_int ?T"
  let ?q = "fit_loop 7 ex_secondary ex_broadcasts ex_collaborators False real_of_int ?T"
  let ?s2 = "ex_state \<lparr> best_metric := Fin (19 / 2), best_checkpoint := 4,
                  num_not_improved := 0, best_metric_history := [Fin 9, Fin 9, Fin (19 / 2)] \<rparr>"
  have d: "determine_improvement ex_externals ex_config [ppl 9] ex_state
             = Inr (False, ex_state \<lparr> num_not_improved := 3 \<rparr>)"
    by (simp add: determine_improvement_def ex_defs spec_metric_value_is_better_def Let_def)
  have d2: "determine_improvement ex_secondary ex_config [ex_accuracy, ppl (19 / 2)] ex_state
             = Inr (True, ?s2)"
    by (simp add: determine_improvement_def ex_defs comm_bcast_bool_def Let_def)
  have "map_sum id fst ?r = Inr Running" by code_simp
  then have r: "?r = Inr (fst (projr ?r), snd (projr ?r))" by (cases ?r) auto
  have "map_sum id fst ?q = Inr Running" by code_simp
  then have q: "?q = Inr (fst (projr ?q), snd (projr ?q))" by (cases ?q) auto
  have h: "\<not> using_horovod ex_externals \<or> hvd_rank ex_externals = 0" by (simp add: ex_defs)
  have h2: "using_horovod ex_secondary \<and> hvd_rank ex_secondary \<noteq> 0" by (simp add: ex_defs)
  have c: "best_checkpoint (state ?T) \<le> checkpoint (state ?T)" by (simp add: ex_defs)
  have n: "\<forall>m\<in>set [ppl 9]. name m = early_stopping_metric ex_config \<longrightarrow>
       \<not> metric_value_is_better ex_externals (get m) (best_metric ex_state)
           (early_stopping_metric ex_config)"
    by (simp add: ex_defs spec_metric_value_is_better_def)
  have m: "[ex_accuracy, ppl (19 / 2)] = [ex_accuracy] @ ppl (19 / 2) # []
       \<and> name (ppl (19 / 2)) = early_stopping_metric ex_config
       \<and> (\<forall>x\<in>set [ex_accuracy]. name x \<noteq> early_stopping_metric ex_config)
       \<and> (\<forall>x\<in>set []. name x \<noteq> early_stopping_metric ex_config)"
    by (simp add: ex_defs)
  note th = best_is_kept [where D = ex_externals and cfg = ex_config and ms = "[ppl 9]"
         and s = ex_state and b = False and s' = "ex_state \<lparr> num_not_improved := 3 \<rparr>"
         and T = ?T and n = 7 and B = ex_broadcasts
         and E = ex_collaborators and decoder = False and clock = real_of_int
         and st = "fst (projr ?r)" and T' = "snd (projr ?r)"]
  note th2 = best_is_kept [where D = ex_secondary and cfg = ex_config
         and ms = "[ex_accuracy, ppl (19 / 2)]" and s = ex_state and b = True and s' = ?s2
         and f = "\<lambda>_ _ _. False" and pre = "[ex_accuracy]" and m = "ppl (19 / 2)" and rest = "[]"
         and T = ?T and n = 7 and B = ex_broadcasts
         and E = ex_collaborators and decoder = False and clock = real_of_int
         and st = "fst (projr ?q)" and T' = "snd (projr ?q)"]
  from th [THEN conjunct1, THEN mp, OF d] h n
  have one: "best_metric (ex_state \<lparr> num_not_improved := 3 \<rparr>) = best_metric ex_state
     \<and> best_checkpoint (ex_state \<lparr> num_not_improved := 3 \<rparr>) = best_checkpoint ex_state"
    by blast
  from th [THEN conjunct2, THEN conjunct1, THEN mp, OF r] h
  have two: "(\<lambda>old new. metric_value_is_better ex_externals new old
                    (early_stopping_metric (config ?T)))\<^sup>*\<^sup>*
        (best_metric (state ?T)) (best_metric (state (snd (projr ?r))))"
    by blast
  from th2 [THEN conjunct1, THEN mp, OF d2] h2 m
  have three: "determine_improvement (ex_secondary \<lparr> metric_value_is_better := (\<lambda>_ _ _. False) \<rparr>)
        ex_config [ex_accuracy, ppl (19 / 2)] ex_state = Inr (True, ?s2)
     \<and> True = bcast_bool ex_secondary 0 False"
    by blast
  from th2 [THEN conjunct2, THEN conjunct1, THEN mp, OF q] c
  have four: "best_checkpoint (state (snd (projr ?q))) \<le> checkpoint (state (snd (projr ?q)))"
    by blast
  from three have five: "bcast_bool ex_secondary 0 False" by simp
  let ?f = "fit 20 ex_externals ex_broadcasts ex_collaborators False 7 real_of_int ex_impatient"
  have "map_option (map_sum id ledger_summary) ?f
          = Some (Inr (10, 10, 100, 5, 2, True, [Fin 9, Fin 9, Fin 9]))" by code_simp
  then have f: "?f = Some (Inr (projr (the ?f)))" by (cases ?f; cases "the ?f") auto
  have t: "case training_state ex_impatient of None \<Rightarrow> True
           | Some blob \<Rightarrow> best_checkpoint blob \<le> checkpoint blob"
    by (simp add: ex_defs)
  from best_is_kept [where D = ex_externals and B = ex_broadcasts and E = ex_collaborators
         and decoder = False and now = 7 and clock = real_of_int and n = 20
         and Ti = ex_impatient and Tr = "projr (the ?f)",
         THEN conjunct2, THEN conjunct2, THEN mp, OF conjI [OF t f]]
  have six: "best_checkpoint (state (projr (the ?f))) \<le> checkpoint (state (projr (the ?f)))" .
  from d one d2 three five six four two show ?thesis
    by (intro conjI) (erule conjunct1 conjunct2 | assumption)+
qed

text \<open>
  The claim as stated, without the distinction of workers, fails on a secondary
  worker: its own value 9.5 does not improve on the best value 9, but rank 0
  broadcasts an improvement, and the call records 9.5 as the best value and the
  current checkpoint as the best one.
\<close>

theorem secondary_worker_counterexample:
  "improvement_outcome (determine_improvement ex_secondary ex_config [ppl (19 / 2)] ex_state)
     = Inr (True, Fin (19 / 2), 4, [Fin 9, Fin 9, Fin (19 / 2)])
   \<and> best_metric ex_state = Fin 9 \<and> best_checkpoint ex_state = 2
   \<and> \<not> metric_value_is_better ex_secondary (Fin (19 / 2)) (best_metric ex_state) ''perplexity''"
  by (simp add: improvement_outcome_def determine_improvement_def ex_defs
        spec_metric_value_is_better_def comm_bcast_bool_def Let_def)

section \<open>Convergence\<close>

text \<open>
  C4, as the code has it. \<open>_determine_convergence\<close> returns False whenever a
  configured minimum of samples, updates or epochs is unmet. When the minimums are
  met, a patience window is configured (not None, not negative) and at least that
  many checkpoints have elapsed, the result is True exactly when the improvement
  over the window is at most the threshold, where the improvement is
  \<open>abs(best_metric - best_metric_history[0])\<close> on the worker that makes the
  authoritative calculation (no Horovod, or rank 0), and the value broadcast by
  rank 0 on every other worker.
\<close>

theorem convergence_cases:
  "(unmet (min_samples cfg) (samples s) \<or> unmet (min_updates cfg) (updates s)
      \<or> unmet (min_epochs cfg) (epoch s) \<longrightarrow> determine_convergence D cfg s = Inr False)
   \<and> (\<not> unmet (min_samples cfg) (samples s) \<and> \<not> unmet (min_updates cfg) (updates s)
      \<and> \<not> unmet (min_epochs cfg) (epoch s)
      \<and> max_num_checkpoint_not_improved cfg = Some m \<and> 0 \<le> m \<and> m \<le> checkpoint s \<longrightarrow>
        ((\<not> using_horovod D \<or> hvd_rank D = 0) \<and> best_metric_history s = h # hs \<longrightarrow>
           determine_convergence D cfg s
             = Inr (float_le (float_abs (float_sub (float_round D) (best_metric s) h))
                      (checkpoint_improvement_threshold cfg)))
      \<and> (using_horovod D \<and> hvd_rank D \<noteq> 0 \<longrightarrow>
           determine_convergence D cfg s
             = Inr (float_le (bcast_float D (Fin 0)) (checkpoint_improvement_threshold cfg))))"
  by (auto simp: determine_convergence_def comm_bcast_float_def Let_def)

theorem convergence_cases_witness:
  "determine_convergence ex_externals (ex_config \<lparr> min_updates := Some 9 \<rparr>) ex_state = Inr False
   \<and> determine_convergence ex_externals ex_config ex_state = Inr True
   \<and> determine_convergence ex_externals ex_config (ex_state \<lparr> best_metric := Fin 8 \<rparr>) = Inr False
   \<and> determine_convergence ex_secondary ex_config ex_state = Inr False"
  using convergence_cases [of "ex_config \<lparr> min_updates := Some 9 \<rparr>" ex_state ex_externals 2 "Fin 9" "[]"]
        convergence_cases [of ex_config ex_state ex_externals 2 "Fin 9" "[Fin 9, Fin 9]"]
        convergence_cases [of ex_config "ex_state \<lparr> best_metric := Fin 8 \<rparr>" ex_externals 2 "Fin 9" "[Fin 9, Fin 9]"]
        convergence_cases [of ex_config ex_state ex_secondary 2 "Fin 9" "[Fin 9, Fin 9]"]
  by (simp add: ex_defs unmet_def)

text \<open>
  The claim as stated, without the distinction of workers, fails on a secondary
  worker: there the window shows no improvement at all, all minimums are met and the
  patience has elapsed, but rank 0 broadcasts an improvement of 3 and the result
  is False.
\<close>

theorem convergence_secondary_counterexample:
  "\<not> unmet (min_samples ex_config) (samples ex_state)
   \<and> \<not> unmet (min_updates ex_config) (updates ex_state)
   \<and> \<not> unmet (min_epochs ex_config) (epoch ex_state)
   \<and> max_num_checkpoint_not_improved ex_config = Some 2
   \<and> 2 \<le> checkpoint ex_state
   \<and> best_metric ex_state = Fin 9 \<and> best_metric_history ex_state = [Fin 9, Fin 9, Fin 9]
   \<and> float_le (float_abs (float_sub (float_round ex_secondary) (Fin 9) (Fin 9)))
        (checkpoint_improvement_threshold ex_config)
   \<and> determine_convergence ex_secondary ex_config ex_state = Inr False"
  by (simp add: ex_defs unmet_def determine_convergence_def comm_bcast_float_def)

section \<open>Resuming a run\<close>




























end
